theory Spec2Isabelle
  imports Complex_Main
begin

section \<open>Python values\<close>

text \<open>
  The result records of the analysis layer are Python dictionaries with string keys whose
  values are numbers, strings, booleans, \<open>None\<close>, tuples, lists and further
  dictionaries. A dictionary is an association list in insertion order. A float is a real
  number, an infinity or NaN (what pandas and numpy return where a statistic is
  undefined); rounding error and overflow are left out of the model.
\<close>

datatype pyfloat = Fl real | PosInf | NegInf | NaN

datatype pyval =
    VNone
  | VBool bool
  | VInt int
  | VFloat pyfloat
  | VStr string
  | VTuple "pyval list"
  | VList "pyval list"
  | VDict "(string \<times> pyval) list"

type_synonym pydict = "(string \<times> pyval) list"

definition keys :: "pydict \<Rightarrow> string list" where
  "keys d = map fst d"

definition dict_get :: "pydict \<Rightarrow> string \<Rightarrow> pyval option" where
  "dict_get d k = map_of d k"

text \<open>Assignment to a dictionary key: an existing key keeps its place, a new one goes last.\<close>

fun dict_set :: "('k \<times> 'v) list \<Rightarrow> 'k \<Rightarrow> 'v \<Rightarrow> ('k \<times> 'v) list" where
  "dict_set [] k v = [(k, v)]"
| "dict_set ((k', v') # rest) k v = (if k' = k then (k, v) # rest else (k', v') # dict_set rest k v)"

text \<open>
  A cell of a pandas frame is a number, a text or missing; a frame has a number of rows
  and named columns of cells.
\<close>

datatype cell = Missing | Num real | Txt string

record data_frame =
  nrows :: nat
  cols :: "(string \<times> cell list) list"

section \<open>cleaning/audit.py: AuditLogger\<close>

text \<open>
  \<open>datetime.now()\<close> is an input of the model: the operations that read the clock take
  the ISO text of the current time as an argument.
\<close>

record audit_entry =
  timestamp :: string
  action :: string
  details :: pydict
  user :: string
  entry_number :: nat

record audit_logger =
  dataset_id :: "string option"
  entries :: "audit_entry list"
  created_at :: string

definition audit_init :: "string option \<Rightarrow> string \<Rightarrow> audit_logger" where
  "audit_init did now = \<lparr>dataset_id = did, entries = [], created_at = now\<rparr>"

definition log :: "audit_logger \<Rightarrow> string \<Rightarrow> string \<Rightarrow> pydict \<Rightarrow> string \<Rightarrow> audit_logger \<times> audit_entry" where
  "log s now act det usr =
     (let entry = \<lparr>timestamp = now, action = act, details = det, user = usr,
                    entry_number = length (entries s) + 1\<rparr>
      in (s\<lparr>entries := entries s @ [entry]\<rparr>, entry))"

definition clear :: "audit_logger \<Rightarrow> audit_logger" where
  "clear s = s\<lparr>entries := []\<rparr>"

definition undo_last :: "audit_logger \<Rightarrow> audit_logger \<times> audit_entry option" where
  "undo_last s =
     (if entries s \<noteq> [] then (s\<lparr>entries := butlast (entries s)\<rparr>, Some (last (entries s)))
      else (s, None))"

text \<open>
  The reading operations: \<open>get_log\<close> hands out the entries with their count,
  \<open>get_summary\<close> counts the entries per action in order of first appearance.
  \<open>export_markdown\<close> and \<open>export_json\<close> render the same data as text and assign to no
  field of the logger.
\<close>

definition get_log :: "audit_logger \<Rightarrow> string option \<times> string \<times> nat \<times> audit_entry list" where
  "get_log s = (dataset_id s, created_at s, length (entries s), entries s)"

fun bump_count :: "string \<Rightarrow> (string \<times> nat) list \<Rightarrow> (string \<times> nat) list" where
  "bump_count a [] = [(a, 1)]"
| "bump_count a ((k, c) # rest) = (if k = a then (k, c + 1) # rest else (k, c) # bump_count a rest)"

definition action_counts :: "audit_entry list \<Rightarrow> (string \<times> nat) list" where
  "action_counts es = foldl (\<lambda>acc e. bump_count (action e) acc) [] es"

definition get_summary ::
  "audit_logger \<Rightarrow> string option \<times> nat \<times> (string \<times> nat) list \<times> string option \<times> string option" where
  "get_summary s =
     (dataset_id s, length (entries s), action_counts (entries s),
      (if entries s \<noteq> [] then Some (timestamp (hd (entries s))) else None),
      (if entries s \<noteq> [] then Some (timestamp (last (entries s))) else None))"

text \<open>The methods of the class as operations on the state of one logger.\<close>

datatype audit_op =
    OpLog string string pydict string
  | OpGetLog
  | OpGetSummary
  | OpExportMarkdown
  | OpExportJson
  | OpClear
  | OpUndoLast

fun audit_step :: "audit_logger \<Rightarrow> audit_op \<Rightarrow> audit_logger" where
  "audit_step s (OpLog now act det usr) = fst (log s now act det usr)"
| "audit_step s OpGetLog = s"
| "audit_step s OpGetSummary = s"
| "audit_step s OpExportMarkdown = s"
| "audit_step s OpExportJson = s"
| "audit_step s OpClear = clear s"
| "audit_step s OpUndoLast = fst (undo_last s)"

definition audit_run :: "audit_logger \<Rightarrow> audit_op list \<Rightarrow> audit_logger" where
  "audit_run s ops = foldl audit_step s ops"

text \<open>
  The shape the specification allows for one operation: the entries stay as they are, or
  one entry is added at the end, or all entries are dropped.
\<close>

definition appended :: "audit_entry list \<Rightarrow> audit_entry list \<Rightarrow> bool" where
  "appended old new = (length new = length old + 1 \<and> take (length old) new = old)"

definition append_or_clear :: "audit_entry list \<Rightarrow> audit_entry list \<Rightarrow> bool" where
  "append_or_clear old new = (new = old \<or> appended old new \<or> new = [])"

definition append_clear_or_undo :: "audit_entry list \<Rightarrow> audit_entry list \<Rightarrow> bool" where
  "append_clear_or_undo old new = (append_or_clear old new \<or> new = butlast old)"

text \<open>The entries of the first list that the second still has, at their old positions.\<close>

definition kept_unchanged :: "audit_entry list \<Rightarrow> audit_entry list \<Rightarrow> bool" where
  "kept_unchanged old new = (take (min (length old) (length new)) new = take (min (length old) (length new)) old)"

definition two_logged :: audit_logger where
  "two_logged = audit_run (audit_init None ''t0'')
     [OpLog ''t1'' ''impute'' [] ''system'', OpLog ''t2'' ''recode'' [] ''system'']"

section \<open>cleaning/audit.py: DataVersionManager\<close>

text \<open>
  A pandas DataFrame is a mutable object, and the manager and its callers may hold the same
  one. Frames therefore live in a store: a list of frame contents, an object being its
  index. \<open>df.copy()\<close> allocates a new object with the contents of the old one; a
  change in place rewrites the contents of one object.
\<close>

type_synonym store = "data_frame list"

definition frame_copy :: "store \<Rightarrow> nat \<Rightarrow> store \<times> nat" where
  "frame_copy h a = (h @ [h ! a], length h)"

definition frame_mutate :: "store \<Rightarrow> nat \<Rightarrow> (data_frame \<Rightarrow> data_frame) \<Rightarrow> store" where
  "frame_mutate h a f = (if a < length h then h[a := f (h ! a)] else h)"

definition shape :: "data_frame \<Rightarrow> nat \<times> nat" where
  "shape df = (nrows df, length (cols df))"

record version_info =
  data :: nat
  saved_timestamp :: string
  description :: "string option"
  saved_shape :: "nat \<times> nat"
  saved_columns :: "string list"

record version_manager =
  versions :: "(string \<times> version_info) list"
  current_version :: "string option"

definition version_manager_init :: version_manager where
  "version_manager_init = \<lparr>versions = [], current_version = None\<rparr>"

record save_receipt =
  receipt_version :: string
  receipt_rows :: nat
  receipt_columns :: nat
  receipt_saved_at :: string

definition save_version ::
  "store \<Rightarrow> version_manager \<Rightarrow> nat \<Rightarrow> string \<Rightarrow> string option \<Rightarrow> string
    \<Rightarrow> store \<times> version_manager \<times> save_receipt" where
  "save_version h m df version_name descr now =
     (let (h', c) = frame_copy h df;
          info = \<lparr>data = c, saved_timestamp = now, description = descr,
                  saved_shape = shape (h ! df), saved_columns = map fst (cols (h ! df))\<rparr>
      in (h',
          m\<lparr>versions := dict_set (versions m) version_name info,
            current_version := Some version_name\<rparr>,
          \<lparr>receipt_version = version_name, receipt_rows = fst (shape (h ! df)),
           receipt_columns = snd (shape (h ! df)), receipt_saved_at = now\<rparr>))"

definition get_version :: "store \<Rightarrow> version_manager \<Rightarrow> string \<Rightarrow> store \<times> nat option" where
  "get_version h m version_name =
     (case map_of (versions m) version_name of
        Some info \<Rightarrow> (let (h', c) = frame_copy h (data info) in (h', Some c))
      | None \<Rightarrow> (h, None))"

text \<open>What a saved version holds: the contents of the object its entry points to.\<close>

definition snapshot :: "store \<Rightarrow> version_manager \<Rightarrow> string \<Rightarrow> data_frame option" where
  "snapshot h m version_name = map_option (\<lambda>info. h ! data info) (map_of (versions m) version_name)"

definition stored_objects :: "version_manager \<Rightarrow> nat list" where
  "stored_objects m = map (\<lambda>(n, info). data info) (versions m)"

text \<open>
  The state a manager is in after any number of its operations: every saved version points
  to a live object. The caller's frame is a live object that is none of them (the manager
  hands out copies only).
\<close>

definition manager_ok :: "store \<Rightarrow> version_manager \<Rightarrow> bool" where
  "manager_ok h m = list_all (\<lambda>a. a < length h) (stored_objects m)"

definition callers_frame :: "store \<Rightarrow> version_manager \<Rightarrow> nat \<Rightarrow> bool" where
  "callers_frame h m a = (a < length h \<and> a \<notin> set (stored_objects m))"

definition frame_one :: data_frame where
  "frame_one = \<lparr>nrows = 2, cols = [(''score'', [Num 1, Num 2])]\<rparr>"

definition wipe :: "data_frame \<Rightarrow> data_frame" where
  "wipe df = \<lparr>nrows = 0, cols = []\<rparr>"

definition saved_once :: "store \<times> version_manager \<times> save_receipt" where
  "saved_once = save_version [frame_one] version_manager_init 0 ''raw'' None ''t1''"

section \<open>Exceptions and subscripting\<close>

text \<open>
  An exception is a value: its class and the message \<open>str(e)\<close> gives. \<open>Raised\<close> stands
  for any other exception, such as the ones the statistics libraries and the HTTP client
  raise. A computation that may raise returns \<open>pyexc + 'a\<close>.
\<close>

datatype pyexc =
    KeyError string
  | IndexError string
  | TypeError string
  | ZeroDivisionError string
  | Raised string

fun exc_str :: "pyexc \<Rightarrow> string" where
  "exc_str (KeyError k) = [CHR 0x27] @ k @ [CHR 0x27]"
| "exc_str (IndexError m) = m"
| "exc_str (TypeError m) = m"
| "exc_str (ZeroDivisionError m) = m"
| "exc_str (Raised m) = m"

definition bind_exc :: "pyexc + 'a \<Rightarrow> ('a \<Rightarrow> pyexc + 'b) \<Rightarrow> pyexc + 'b" where
  "bind_exc r f = (case r of Inl e \<Rightarrow> Inl e | Inr v \<Rightarrow> f v)"

text \<open>Truth value of an object in a condition.\<close>

fun truthy :: "pyval \<Rightarrow> bool" where
  "truthy VNone = False"
| "truthy (VBool b) = b"
| "truthy (VInt i) = (i \<noteq> 0)"
| "truthy (VFloat a) = (a \<noteq> Fl 0)"
| "truthy (VStr s) = (s \<noteq> [])"
| "truthy (VTuple xs) = (xs \<noteq> [])"
| "truthy (VList xs) = (xs \<noteq> [])"
| "truthy (VDict kvs) = (kvs \<noteq> [])"

definition getitem_key :: "pyval \<Rightarrow> string \<Rightarrow> pyexc + pyval" where
  "getitem_key v k =
     (case v of
        VDict kvs \<Rightarrow> (case map_of kvs k of Some x \<Rightarrow> Inr x | None \<Rightarrow> Inl (KeyError k))
      | _ \<Rightarrow> Inl (TypeError ''object is not subscriptable by a key''))"

definition getitem_first :: "pyval \<Rightarrow> pyexc + pyval" where
  "getitem_first v =
     (case v of
        VList xs \<Rightarrow> (case xs of [] \<Rightarrow> Inl (IndexError ''list index out of range'') | x # _ \<Rightarrow> Inr x)
      | VTuple xs \<Rightarrow> (case xs of [] \<Rightarrow> Inl (IndexError ''tuple index out of range'') | x # _ \<Rightarrow> Inr x)
      | VDict kvs \<Rightarrow> Inl (KeyError ''0'')
      | _ \<Rightarrow> Inl (TypeError ''object is not subscriptable''))"

section \<open>ai/interpreter.py: AIInterpreter\<close>

text \<open>
  The method \<open>AIInterpreter.interpret\<close> is \<open>interpret_prompt\<close> here (its own name
  is a keyword of the proof language).

  The network is a parameter: \<open>post\<close> maps a request to the exception \<open>requests.post\<close>
  raises or to the response it returns, and a response carries its status code, its text
  and what \<open>response.json()\<close> gives (an exception or the decoded body). The system prompt
  of \<open>ai/prompts.py\<close> is a parameter too.
\<close>

record http_request =
  url :: string
  headers :: "(string \<times> string) list"
  json_body :: pyval
  timeout :: nat

record http_response =
  status_code :: int
  text_of :: string
  json_of :: "pyexc + pyval"

type_synonym http = "http_request \<Rightarrow> pyexc + http_response"

record ai_interpreter =
  deepseek_api_key :: string
  gemini_api_key :: string
  deepseek_base_url :: string
  gemini_base_url :: string

definition ai_interpreter_init :: "string \<Rightarrow> string \<Rightarrow> ai_interpreter" where
  "ai_interpreter_init deepseek_key gemini_key =
     \<lparr>deepseek_api_key = deepseek_key, gemini_api_key = gemini_key,
      deepseek_base_url = ''https://api.deepseek.com/v1'',
      gemini_base_url = ''https://generativelanguage.googleapis.com/v1beta''\<rparr>"

definition deepseek_content :: "pyval \<Rightarrow> pyexc + pyval" where
  "deepseek_content d =
     bind_exc (getitem_key d ''choices'') (\<lambda>c.
     bind_exc (getitem_first c) (\<lambda>c0.
     bind_exc (getitem_key c0 ''message'') (\<lambda>m.
     getitem_key m ''content'')))"

definition call_deepseek :: "http \<Rightarrow> ai_interpreter \<Rightarrow> pyval list \<Rightarrow> int \<Rightarrow> pyval" where
  "call_deepseek post self messages max_tokens =
     (if deepseek_api_key self = [] then VNone
      else
        (case post \<lparr>url = deepseek_base_url self @ ''/chat/completions'',
                    headers = [(''Content-Type'', ''application/json''),
                               (''Authorization'', ''Bearer '' @ deepseek_api_key self)],
                    json_body = VDict [(''model'', VStr ''deepseek-reasoner''),
                                       (''messages'', VList messages),
                                       (''max_tokens'', VInt max_tokens),
                                       (''temperature'', VFloat (Fl (7 / 10))),
                                       (''stream'', VBool False)],
                    timeout = 60\<rparr> of
           Inl e \<Rightarrow> VNone
         | Inr response \<Rightarrow>
             if status_code response = 200 then
               (case bind_exc (json_of response) deepseek_content of
                  Inl e \<Rightarrow> VNone
                | Inr content \<Rightarrow> content)
             else VNone))"

definition gemini_text :: "pyval \<Rightarrow> pyexc + pyval" where
  "gemini_text d =
     bind_exc (getitem_key d ''candidates'') (\<lambda>c.
     bind_exc (getitem_first c) (\<lambda>c0.
     bind_exc (getitem_key c0 ''content'') (\<lambda>ct.
     bind_exc (getitem_key ct ''parts'') (\<lambda>ps.
     bind_exc (getitem_first ps) (\<lambda>p0.
     getitem_key p0 ''text'')))))"

fun gemini_models :: "http \<Rightarrow> ai_interpreter \<Rightarrow> string \<Rightarrow> int \<Rightarrow> string list \<Rightarrow> pyval" where
  "gemini_models post self prompt max_tokens [] = VNone"
| "gemini_models post self prompt max_tokens (model # rest) =
     (case post \<lparr>url = gemini_base_url self @ ''/models/'' @ model @ '':generateContent?key=''
                          @ gemini_api_key self,
                  headers = [(''Content-Type'', ''application/json'')],
                  json_body = VDict [(''contents'',
                                        VList [VDict [(''parts'', VList [VDict [(''text'', VStr prompt)]])]]),
                                     (''generationConfig'',
                                        VDict [(''temperature'', VFloat (Fl (7 / 10))),
                                               (''maxOutputTokens'', VInt max_tokens)])],
                  timeout = 60\<rparr> of
        Inl e \<Rightarrow> gemini_models post self prompt max_tokens rest
      | Inr response \<Rightarrow>
          if status_code response = 200 then
            (case bind_exc (json_of response) gemini_text of
               Inl e \<Rightarrow> gemini_models post self prompt max_tokens rest
             | Inr t \<Rightarrow> t)
          else gemini_models post self prompt max_tokens rest)"

definition call_gemini :: "http \<Rightarrow> ai_interpreter \<Rightarrow> string \<Rightarrow> int \<Rightarrow> pyval" where
  "call_gemini post self prompt max_tokens =
     (if gemini_api_key self = [] then VNone
      else gemini_models post self prompt max_tokens [''gemini-3-flash-preview'', ''gemini-2.5-flash''])"

definition fallback_lines :: "string list" where
  "fallback_lines =
     [''**Interpretation (AI temporarily unavailable):**'',
      [],
      ''The statistical results have been calculated accurately by Python. Please review:'',
      ''- The p-value to determine statistical significance (p < 0.05 is significant)'',
      ''- The effect size to understand practical significance'',
      ''- The confidence intervals for precision of estimates'',
      [],
      ''For a complete narrative interpretation, please retry when AI services are available.'']"

definition generate_fallback_interpretation :: string where
  "generate_fallback_interpretation = concat (map (\<lambda>l. CHR 0x0A # l) fallback_lines) @ [CHR 0x0A]"

definition interpret_prompt :: "string \<Rightarrow> http \<Rightarrow> ai_interpreter \<Rightarrow> string \<Rightarrow> bool \<Rightarrow> pydict" where
  "interpret_prompt system_prompt post self prompt use_system_prompt =
     (let messages =
            (if use_system_prompt
             then [VDict [(''role'', VStr ''system''), (''content'', VStr system_prompt)]]
             else [])
            @ [VDict [(''role'', VStr ''user''), (''content'', VStr prompt)]];
          result = call_deepseek post self messages 2000
      in if truthy result then
           [(''success'', VBool True), (''interpretation'', result),
            (''model'', VStr ''deepseek-reasoner'')]
         else
           (let full_prompt =
                  (if use_system_prompt then system_prompt @ [CHR 0x0A, CHR 0x0A] @ prompt
                   else prompt);
                result = call_gemini post self full_prompt 2000
            in if truthy result then
                 [(''success'', VBool True), (''interpretation'', result),
                  (''model'', VStr ''gemini-flash'')]
               else
                 [(''success'', VBool False),
                  (''interpretation'', VStr generate_fallback_interpretation),
                  (''model'', VStr ''fallback-template''),
                  (''error'', VStr ''Both AI services unavailable. Using template response.'')]))"

text \<open>A network that answers every request with a DeepSeek-shaped body.\<close>

definition post_up :: http where
  "post_up req =
     Inr \<lparr>status_code = 200, text_of = [],
          json_of = Inr (VDict [(''choices'',
                      VList [VDict [(''message'', VDict [(''content'', VStr ''A narrative.'')])]])])\<rparr>"

section \<open>Floats\<close>

text \<open>
  numpy scalars do not raise on a division by zero: the quotient is an infinity or NaN.
  The arithmetic below follows IEEE 754 on the four kinds of value, with exact reals in
  place of the finite floats (no rounding error, no overflow, one zero).
\<close>

fun fneg :: "pyfloat \<Rightarrow> pyfloat" where
  "fneg (Fl x) = Fl (- x)"
| "fneg PosInf = NegInf"
| "fneg NegInf = PosInf"
| "fneg NaN = NaN"

fun fabs :: "pyfloat \<Rightarrow> pyfloat" where
  "fabs (Fl x) = Fl \<bar>x\<bar>"
| "fabs PosInf = PosInf"
| "fabs NegInf = PosInf"
| "fabs NaN = NaN"

fun fadd :: "pyfloat \<Rightarrow> pyfloat \<Rightarrow> pyfloat" where
  "fadd (Fl x) (Fl y) = Fl (x + y)"
| "fadd NaN b = NaN"
| "fadd a NaN = NaN"
| "fadd PosInf NegInf = NaN"
| "fadd NegInf PosInf = NaN"
| "fadd PosInf b = PosInf"
| "fadd NegInf b = NegInf"
| "fadd a PosInf = PosInf"
| "fadd a NegInf = NegInf"

definition fsub :: "pyfloat \<Rightarrow> pyfloat \<Rightarrow> pyfloat" where
  "fsub a b = fadd a (fneg b)"

definition signed_inf :: "bool \<Rightarrow> pyfloat" where
  "signed_inf positive = (if positive then PosInf else NegInf)"

fun fmul :: "pyfloat \<Rightarrow> pyfloat \<Rightarrow> pyfloat" where
  "fmul (Fl x) (Fl y) = Fl (x * y)"
| "fmul NaN b = NaN"
| "fmul a NaN = NaN"
| "fmul (Fl x) PosInf = (if x = 0 then NaN else signed_inf (0 < x))"
| "fmul (Fl x) NegInf = (if x = 0 then NaN else signed_inf (x < 0))"
| "fmul PosInf (Fl y) = (if y = 0 then NaN else signed_inf (0 < y))"
| "fmul NegInf (Fl y) = (if y = 0 then NaN else signed_inf (y < 0))"
| "fmul PosInf PosInf = PosInf"
| "fmul PosInf NegInf = NegInf"
| "fmul NegInf PosInf = NegInf"
| "fmul NegInf NegInf = PosInf"

fun fdiv :: "pyfloat \<Rightarrow> pyfloat \<Rightarrow> pyfloat" where
  "fdiv (Fl x) (Fl y) =
     (if y \<noteq> 0 then Fl (x / y) else if x = 0 then NaN else signed_inf (0 < x))"
| "fdiv NaN b = NaN"
| "fdiv a NaN = NaN"
| "fdiv (Fl x) PosInf = Fl 0"
| "fdiv (Fl x) NegInf = Fl 0"
| "fdiv PosInf (Fl y) = signed_inf (0 \<le> y)"
| "fdiv NegInf (Fl y) = signed_inf (y < 0)"
| "fdiv PosInf b = NaN"
| "fdiv NegInf b = NaN"

fun np_sqrt :: "pyfloat \<Rightarrow> pyfloat" where
  "np_sqrt (Fl x) = (if x < 0 then NaN else Fl (sqrt x))"
| "np_sqrt PosInf = PosInf"
| "np_sqrt NegInf = NaN"
| "np_sqrt NaN = NaN"

text \<open>Comparisons: every comparison with NaN is false.\<close>

fun flt :: "pyfloat \<Rightarrow> pyfloat \<Rightarrow> bool" where
  "flt (Fl x) (Fl y) = (x < y)"
| "flt NaN b = False"
| "flt a NaN = False"
| "flt a NegInf = False"
| "flt PosInf b = False"
| "flt NegInf b = True"
| "flt a PosInf = True"

definition fgt :: "pyfloat \<Rightarrow> pyfloat \<Rightarrow> bool" where
  "fgt a b = flt b a"

definition feq :: "pyfloat \<Rightarrow> pyfloat \<Rightarrow> bool" where
  "feq a b = (a \<noteq> NaN \<and> a = b)"


text \<open>
  \<open>round(x, ndigits)\<close>: to the nearest multiple of \<open>10 ^ (- ndigits)\<close>, a tie going to
  the even one; infinities and NaN stay as they are.
\<close>

definition round_half_even :: "real \<Rightarrow> int" where
  "round_half_even y =
     (let f = \<lfloor>y\<rfloor>; d = y - of_int f
      in if d < 1 / 2 then f else if 1 / 2 < d then f + 1 else if even f then f else f + 1)"

fun py_round :: "pyfloat \<Rightarrow> nat \<Rightarrow> pyfloat" where
  "py_round (Fl x) ndigits = Fl (of_int (round_half_even (x * 10 ^ ndigits)) / 10 ^ ndigits)"
| "py_round a ndigits = a"

text \<open>Division of two Python integers: raises on a zero divisor.\<close>

definition int_truediv :: "int \<Rightarrow> int \<Rightarrow> pyexc + pyfloat" where
  "int_truediv a b =
     (if b = 0 then Inl (ZeroDivisionError ''division by zero'') else Inr (Fl (of_int a / of_int b)))"

section \<open>pandas: series and frames\<close>

text \<open>
  A series that has been through \<open>dropna\<close> is a list of cells none of which is missing.
  \<open>mean\<close>, \<open>var\<close> and \<open>std\<close> of a numeric series are the sample statistics with
  \<open>ddof = 1\<close>; they are NaN where the statistic is undefined.
\<close>

definition pd_mean :: "real list \<Rightarrow> pyfloat" where
  "pd_mean xs = (if xs = [] then NaN else Fl (sum_list xs / of_nat (length xs)))"

definition pd_var :: "real list \<Rightarrow> pyfloat" where
  "pd_var xs =
     (if length xs < 2 then NaN
      else Fl (sum_list (map (\<lambda>x. (x - sum_list xs / of_nat (length xs))\<^sup>2) xs)
                 / of_nat (length xs - 1)))"

definition pd_std :: "real list \<Rightarrow> pyfloat" where
  "pd_std xs = np_sqrt (pd_var xs)"

definition as_numeric :: "cell list \<Rightarrow> pyexc + real list" where
  "as_numeric cs =
     (if list_all (\<lambda>c. case c of Num x \<Rightarrow> True | _ \<Rightarrow> False) cs
      then Inr (map (\<lambda>c. case c of Num x \<Rightarrow> x | _ \<Rightarrow> 0) cs)
      else Inl (TypeError ''unsupported operand type(s)''))"

definition column :: "data_frame \<Rightarrow> string \<Rightarrow> pyexc + cell list" where
  "column df name = (case map_of (cols df) name of Some cs \<Rightarrow> Inr cs | None \<Rightarrow> Inl (KeyError name))"

text \<open>
  \<open>df[[a, b]].dropna()\<close> as the rows of the two columns in which neither cell is missing.
\<close>

definition select2_dropna :: "data_frame \<Rightarrow> string \<Rightarrow> string \<Rightarrow> pyexc + (cell \<times> cell) list" where
  "select2_dropna df a b =
     bind_exc (column df a) (\<lambda>xs.
     bind_exc (column df b) (\<lambda>ys.
     Inr (filter (\<lambda>(x, y). x \<noteq> Missing \<and> y \<noteq> Missing) (zip xs ys))))"

text \<open>\<open>Series.unique()\<close>: the distinct values in order of first appearance.\<close>

fun unique :: "'a list \<Rightarrow> 'a list" where
  "unique [] = []"
| "unique (x # xs) = x # filter (\<lambda>y. y \<noteq> x) (unique xs)"

text \<open>\<open>df_clean[df_clean[group_var] == g][outcome_var]\<close>\<close>

definition group_rows :: "(cell \<times> cell) list \<Rightarrow> cell \<Rightarrow> cell list" where
  "group_rows rs g = map snd (filter (\<lambda>(x, y). x = g) rs)"

section \<open>The statistics libraries\<close>

text \<open>
  scipy, statsmodels, scikit-learn and the parts of numpy and pandas that are not spelled
  out above are parameters of the model, collected in one record. A function that can
  raise returns \<open>pyexc + _\<close>; the functions on scalars and the descriptive statistics of
  a numeric series return NaN where they are undefined and do not raise. The tests that
  compute means are given numbers, the conversion of the cells failing on text before the
  call; the rank-based tests, the correlations, the model fits and Tukey's comparison are
  given the cells as they are. The theorems hold for every such library.
\<close>

record ols_model =
  ols_params :: "pyfloat list"
  ols_bse :: "pyfloat list"
  ols_tvalues :: "pyfloat list"
  ols_pvalues :: "pyfloat list"
  ols_conf_int :: "(pyfloat \<times> pyfloat) list"
  ols_resid :: "real list"
  ols_rsquared :: pyfloat
  ols_rsquared_adj :: pyfloat
  ols_fvalue :: pyfloat
  ols_f_pvalue :: pyfloat
  ols_aic :: pyfloat
  ols_bic :: pyfloat

record logit_model =
  logit_params :: "pyfloat list"
  logit_bse :: "pyfloat list"
  logit_tvalues :: "pyfloat list"
  logit_pvalues :: "pyfloat list"
  logit_conf_int :: "(pyfloat \<times> pyfloat) list"
  logit_prsquared :: pyfloat
  logit_llf :: pyfloat
  logit_aic :: pyfloat
  logit_bic :: pyfloat
  logit_llr_pvalue :: pyfloat
  logit_predict :: "pyexc + pyfloat list"

record tukey_row =
  tk_group1 :: cell
  tk_group2 :: cell
  tk_meandiff :: pyfloat
  tk_p_adj :: pyfloat
  tk_lower :: pyfloat
  tk_upper :: pyfloat
  tk_reject :: bool

record statlib =
  str_num :: "real \<Rightarrow> string"
  sort_labels :: "cell list \<Rightarrow> cell list"
  norm_ppf :: "real \<Rightarrow> pyfloat"
  t_ppf :: "real \<Rightarrow> int \<Rightarrow> pyfloat"
  np_arctanh :: "pyfloat \<Rightarrow> pyfloat"
  np_tanh :: "pyfloat \<Rightarrow> pyfloat"
  np_exp :: "pyfloat \<Rightarrow> pyfloat"
  pd_median :: "real list \<Rightarrow> pyfloat"
  pd_quantile :: "real list \<Rightarrow> real \<Rightarrow> pyfloat"
  pd_skew :: "real list \<Rightarrow> pyfloat"
  pd_kurtosis :: "real list \<Rightarrow> pyfloat"
  levene :: "real list list \<Rightarrow> pyexc + pyfloat \<times> pyfloat"
  ttest_ind :: "real list \<Rightarrow> real list \<Rightarrow> bool \<Rightarrow> pyexc + pyfloat \<times> pyfloat"
  ttest_rel :: "real list \<Rightarrow> real list \<Rightarrow> pyexc + pyfloat \<times> pyfloat"
  shapiro :: "real list \<Rightarrow> pyexc + pyfloat \<times> pyfloat"
  normaltest :: "real list \<Rightarrow> pyexc + pyfloat \<times> pyfloat"
  f_oneway :: "real list list \<Rightarrow> pyexc + pyfloat \<times> pyfloat"
  pairwise_tukeyhsd :: "cell list \<Rightarrow> cell list \<Rightarrow> real \<Rightarrow> pyexc + tukey_row list"
  chi2_contingency :: "int list list \<Rightarrow> pyexc + pyfloat \<times> pyfloat \<times> int \<times> real list list"
  fisher_exact :: "int list list \<Rightarrow> pyexc + pyfloat \<times> pyfloat"
  pearsonr :: "cell list \<Rightarrow> cell list \<Rightarrow> pyexc + pyfloat \<times> pyfloat"
  spearmanr :: "cell list \<Rightarrow> cell list \<Rightarrow> pyexc + pyfloat \<times> pyfloat"
  ols_fit :: "cell list \<Rightarrow> (string \<times> cell list) list \<Rightarrow> pyexc + ols_model"
  variance_inflation_factor :: "(string \<times> cell list) list \<Rightarrow> nat \<Rightarrow> pyexc + pyfloat"
  het_breuschpagan :: "real list \<Rightarrow> (string \<times> cell list) list \<Rightarrow> pyexc + pyfloat \<times> pyfloat"
  durbin_watson :: "real list \<Rightarrow> pyexc + pyfloat"
  logit_fit :: "cell list \<Rightarrow> (string \<times> cell list) list \<Rightarrow> pyexc + logit_model"
  categorical_codes :: "cell list \<Rightarrow> pyexc + real list"
  confusion_matrix :: "real list \<Rightarrow> int list \<Rightarrow> pyexc + int list list"
  mannwhitneyu :: "cell list \<Rightarrow> cell list \<Rightarrow> pyexc + pyfloat \<times> pyfloat"
  kruskal :: "cell list list \<Rightarrow> pyexc + pyfloat \<times> pyfloat"

text \<open>\<open>str(g)\<close> of a group label.\<close>

definition str_cell :: "statlib \<Rightarrow> cell \<Rightarrow> string" where
  "str_cell lib c = (case c of Txt s \<Rightarrow> s | Num x \<Rightarrow> str_num lib x | Missing \<Rightarrow> ''nan'')"

section \<open>analysis/statistics.py: StatisticalAnalyzer\<close>

text \<open>
  The analyzer has one field that the tests read, \<open>alpha\<close>, and the table of effect-size
  thresholds, the same for every analyzer.
\<close>

definition effect_size_thresholds :: "string \<Rightarrow> (real \<times> real \<times> real) option" where
  "effect_size_thresholds metric =
     (if metric = ''cohens_d'' then Some (2 / 10, 5 / 10, 8 / 10)
      else if metric = ''r'' then Some (1 / 10, 3 / 10, 5 / 10)
      else if metric = ''eta_squared'' then Some (1 / 100, 6 / 100, 14 / 100)
      else if metric = ''cramers_v'' then Some (1 / 10, 3 / 10, 5 / 10)
      else if metric = ''r_squared'' then Some (2 / 100, 13 / 100, 26 / 100)
      else None)"

definition interpret_effect_size :: "pyfloat \<Rightarrow> string \<Rightarrow> string" where
  "interpret_effect_size val metric =
     (case effect_size_thresholds metric of
        None \<Rightarrow> ''unknown''
      | Some (small, medium, large) \<Rightarrow>
          (let abs_value = fabs val
           in if flt abs_value (Fl small) then ''negligible''
              else if flt abs_value (Fl medium) then ''small''
              else if flt abs_value (Fl large) then ''medium''
              else ''large''))"

definition pooled_std :: "real list \<Rightarrow> real list \<Rightarrow> pyfloat" where
  "pooled_std group1 group2 =
     (let n1 = int (length group1); n2 = int (length group2);
          var1 = pd_var group1; var2 = pd_var group2
      in np_sqrt (fdiv (fadd (fmul (Fl (of_int (n1 - 1))) var1) (fmul (Fl (of_int (n2 - 1))) var2))
                       (Fl (of_int (n1 + n2 - 2)))))"

definition cohens_d :: "real list \<Rightarrow> real list \<Rightarrow> pyfloat" where
  "cohens_d group1 group2 =
     (if feq (pooled_std group1 group2) (Fl 0) then Fl 0
      else fdiv (fsub (pd_mean group1) (pd_mean group2)) (pooled_std group1 group2))"

definition cohens_d_ci :: "statlib \<Rightarrow> pyfloat \<Rightarrow> int \<Rightarrow> int \<Rightarrow> pyexc + pyfloat \<times> pyfloat" where
  "cohens_d_ci lib d n1 n2 =
     bind_exc (int_truediv (n1 + n2) (n1 * n2)) (\<lambda>q.
       (let se = np_sqrt (fadd q (fdiv (fmul d d) (Fl (of_int (2 * (n1 + n2))))));
            z = norm_ppf lib ((1 + 95 / 100) / 2)
        in Inr (fsub d (fmul z se), fadd d (fmul z se))))"

text \<open>Decimal text of a count, for the messages that quote one.\<close>

fun str_nat :: "nat \<Rightarrow> string" where
  "str_nat n = (if n < 10 then [char_of (48 + n)] else str_nat (n div 10) @ [char_of (48 + n mod 10)])"

definition error_record :: "string \<Rightarrow> pydict" where
  "error_record msg = [(''error'', VStr msg)]"

text \<open>
  Every test method is one \<open>try\<close> block whose handler is
  \<open>except Exception as e: return {'error': str(e)}\<close>.
\<close>

definition try_except :: "pyexc + pydict \<Rightarrow> pydict" where
  "try_except body = (case body of Inl e \<Rightarrow> error_record (exc_str e) | Inr r \<Rightarrow> r)"

definition float_truthy :: "pyfloat \<Rightarrow> bool" where
  "float_truthy a = (a \<noteq> Fl 0)"

definition rounded_or_none :: "pyfloat option \<Rightarrow> pyval" where
  "rounded_or_none a =
     (case a of None \<Rightarrow> VNone
      | Some x \<Rightarrow> if float_truthy x then VFloat (py_round x 4) else VNone)"

definition group_statistics_block :: "real list \<Rightarrow> pyval" where
  "group_statistics_block g =
     VDict [(''n'', VInt (int (length g))),
            (''mean'', VFloat (py_round (pd_mean g) 4)),
            (''std'', VFloat (py_round (pd_std g) 4)),
            (''se'', VFloat (py_round (fdiv (pd_std g) (np_sqrt (Fl (of_nat (length g))))) 4))]"

definition shapiro_if :: "statlib \<Rightarrow> bool \<Rightarrow> real list \<Rightarrow> pyexc + (pyfloat \<times> pyfloat) option" where
  "shapiro_if lib cond xs =
     (if cond then bind_exc (shapiro lib xs) (\<lambda>r. Inr (Some r)) else Inr None)"

definition normality_block :: "real \<Rightarrow> (pyfloat \<times> pyfloat) option \<Rightarrow> pyval" where
  "normality_block alpha r =
     VDict [(''shapiro_w'', rounded_or_none (map_option fst r)),
            (''p_value'', rounded_or_none (map_option snd r)),
            (''normal'',
               (case r of None \<Rightarrow> VNone
                | Some (w, p) \<Rightarrow> if float_truthy p then VBool (fgt p (Fl alpha)) else VNone))]"

definition ttest_record ::
  "statlib \<Rightarrow> real \<Rightarrow> string \<Rightarrow> string \<Rightarrow> cell list \<Rightarrow> real list \<Rightarrow> real list
    \<Rightarrow> pyfloat \<Rightarrow> pyfloat \<Rightarrow> string \<Rightarrow> (pyfloat \<times> pyfloat \<times> bool) option
    \<Rightarrow> pyfloat \<Rightarrow> pyfloat \<times> pyfloat \<Rightarrow> pyfloat \<Rightarrow> pyfloat \<times> pyfloat
    \<Rightarrow> (pyfloat \<times> pyfloat) option \<Rightarrow> (pyfloat \<times> pyfloat) option \<Rightarrow> pydict" where
  "ttest_record lib alpha group_var outcome_var groups group1_data group2_data
      t_stat p_value test_type lev d d_ci mean_diff diff_ci normality_g1 normality_g2 =
     [(''test_type'', VStr test_type),
      (''test_statistic'', VFloat (py_round t_stat 4)),
      (''degrees_of_freedom'', VInt (int (length group1_data) + int (length group2_data) - 2)),
      (''p_value'', VFloat (py_round p_value 4)),
      (''significant'', VBool (flt p_value (Fl alpha))),
      (''alpha'', VFloat (Fl alpha)),
      (''effect_size'',
         VDict [(''cohens_d'', VFloat (py_round d 4)),
                (''ci_95'', VTuple [VFloat (py_round (fst d_ci) 4), VFloat (py_round (snd d_ci) 4)]),
                (''interpretation'', VStr (interpret_effect_size d ''cohens_d''))]),
      (''mean_difference'',
         VDict [(''value'', VFloat (py_round mean_diff 4)),
                (''ci_95'', VTuple [VFloat (py_round (fst diff_ci) 4),
                                    VFloat (py_round (snd diff_ci) 4)])]),
      (''group_statistics'',
         VDict (dict_set [(str_cell lib (groups ! 0), group_statistics_block group1_data)]
                  (str_cell lib (groups ! 1)) (group_statistics_block group2_data))),
      (''assumptions'',
         VDict [(''normality_group1'', normality_block alpha normality_g1),
                (''normality_group2'', normality_block alpha normality_g2),
                (''equal_variance'',
                   VDict [(''levene_stat'',
                             (case lev of None \<Rightarrow> VNone
                              | Some (levene_stat, levene_p, equal_var) \<Rightarrow> VFloat (py_round levene_stat 4))),
                          (''p_value'',
                             (case lev of None \<Rightarrow> VNone
                              | Some (levene_stat, levene_p, equal_var) \<Rightarrow> VFloat (py_round levene_p 4))),
                          (''equal'',
                             (case lev of None \<Rightarrow> VNone
                              | Some (levene_stat, levene_p, equal_var) \<Rightarrow> VBool equal_var))])]),
      (''variables'',
         VDict [(''group'', VStr group_var),
                (''outcome'', VStr outcome_var),
                (''groups'', VList (map (\<lambda>g. VStr (str_cell lib g)) groups))])]"

text \<open>
  The part of \<open>run_ttest\<close> after the test itself: effect size, mean difference, normality
  of each group, and the record. \<open>lev\<close> is Levene's statistic, its p-value and the verdict
  \<open>equal_var\<close>; the paired branch has none.
\<close>

definition ttest_tail ::
  "statlib \<Rightarrow> real \<Rightarrow> string \<Rightarrow> string \<Rightarrow> cell list \<Rightarrow> real list \<Rightarrow> real list
    \<Rightarrow> pyfloat \<Rightarrow> pyfloat \<Rightarrow> string \<Rightarrow> (pyfloat \<times> pyfloat \<times> bool) option \<Rightarrow> pyexc + pydict" where
  "ttest_tail lib alpha group_var outcome_var groups group1_data group2_data t_stat p_value test_type lev =
     (let n1 = int (length group1_data); n2 = int (length group2_data);
          d = cohens_d group1_data group2_data
      in bind_exc (cohens_d_ci lib d n1 n2) (\<lambda>d_ci.
         (let mean_diff = fsub (pd_mean group1_data) (pd_mean group2_data);
              se_diff = np_sqrt (fadd (fdiv (pd_var group1_data) (Fl (of_int n1)))
                                      (fdiv (pd_var group2_data) (Fl (of_int n2))));
              t_crit = t_ppf lib (975 / 1000) (n1 + n2 - 2);
              diff_ci = (fsub mean_diff (fmul t_crit se_diff), fadd mean_diff (fmul t_crit se_diff))
          in bind_exc (shapiro_if lib (3 \<le> length group1_data) group1_data) (\<lambda>normality_g1.
             bind_exc (shapiro_if lib (3 \<le> length group2_data) group2_data) (\<lambda>normality_g2.
             Inr (ttest_record lib alpha group_var outcome_var groups group1_data group2_data
                    t_stat p_value test_type lev d d_ci mean_diff diff_ci
                    normality_g1 normality_g2))))))"

definition welch_label :: string where
  "welch_label = ''Independent Samples t-test (Welch'' @ [CHR 0x27] @ ''s)''"

definition run_ttest_body ::
  "statlib \<Rightarrow> real \<Rightarrow> data_frame \<Rightarrow> string \<Rightarrow> string \<Rightarrow> bool \<Rightarrow> pyexc + pydict" where
  "run_ttest_body lib alpha df group_var outcome_var paired =
     bind_exc (select2_dropna df group_var outcome_var) (\<lambda>df_clean.
     (let groups = unique (map fst df_clean)
      in if paired then
           (if length groups \<noteq> 2
            then Inr (error_record ''Paired t-test requires exactly 2 groups'')
            else
              (let group1_cells = group_rows df_clean (groups ! 0);
                   group2_cells = group_rows df_clean (groups ! 1)
               in if length group1_cells \<noteq> length group2_cells
                  then Inr (error_record ''Paired t-test requires equal sample sizes'')
                  else
                    bind_exc (as_numeric group1_cells) (\<lambda>group1_data.
                    bind_exc (as_numeric group2_cells) (\<lambda>group2_data.
                    bind_exc (ttest_rel lib group1_data group2_data) (\<lambda>(t_stat, p_value).
                    ttest_tail lib alpha group_var outcome_var groups group1_data group2_data
                      t_stat p_value ''Paired Samples t-test'' None)))))
         else
           (if length groups \<noteq> 2
            then Inr (error_record (''T-test requires exactly 2 groups, found '' @ str_nat (length groups)))
            else
              (let group1_cells = group_rows df_clean (groups ! 0);
                   group2_cells = group_rows df_clean (groups ! 1)
               in bind_exc (as_numeric group1_cells) (\<lambda>group1_data.
                  bind_exc (as_numeric group2_cells) (\<lambda>group2_data.
                  bind_exc (levene lib [group1_data, group2_data]) (\<lambda>(levene_stat, levene_p).
                  (let equal_var = fgt levene_p (Fl alpha)
                   in bind_exc (ttest_ind lib group1_data group2_data equal_var) (\<lambda>(t_stat, p_value).
                      ttest_tail lib alpha group_var outcome_var groups group1_data group2_data
                        t_stat p_value
                        (if \<not> equal_var then welch_label else ''Independent Samples t-test'')
                        (Some (levene_stat, levene_p, equal_var)))))))))))"

definition run_ttest :: "statlib \<Rightarrow> real \<Rightarrow> data_frame \<Rightarrow> string \<Rightarrow> string \<Rightarrow> bool \<Rightarrow> pydict" where
  "run_ttest lib alpha df group_var outcome_var paired =
     try_except (run_ttest_body lib alpha df group_var outcome_var paired)"

subsection \<open>run_chisquare\<close>

text \<open>
  \<open>pd.crosstab\<close>: the row and column labels are the distinct values of the two columns,
  sorted, and a cell counts the rows with that pair of values.
\<close>

record contingency =
  ct_index :: "cell list"
  ct_columns :: "cell list"
  ct_counts :: "int list list"

definition crosstab :: "statlib \<Rightarrow> (cell \<times> cell) list \<Rightarrow> contingency" where
  "crosstab lib rs =
     (let idx = sort_labels lib (unique (map fst rs));
          cls = sort_labels lib (unique (map snd rs))
      in \<lparr>ct_index = idx, ct_columns = cls,
          ct_counts = map (\<lambda>r. map (\<lambda>c. int (length (filter (\<lambda>p. p = (r, c)) rs))) cls) idx\<rparr>)"

definition ct_shape :: "contingency \<Rightarrow> nat \<times> nat" where
  "ct_shape ct = (length (ct_index ct), length (ct_columns ct))"

text \<open>\<open>DataFrame.to_dict()\<close>: per column label, the cells of the column by row label.\<close>

definition table_to_dict :: "statlib \<Rightarrow> cell list \<Rightarrow> cell list \<Rightarrow> (nat \<Rightarrow> nat \<Rightarrow> pyval) \<Rightarrow> pyval" where
  "table_to_dict lib idx cls entry =
     VDict (map (\<lambda>j. (str_cell lib (cls ! j),
                        VDict (map (\<lambda>i. (str_cell lib (idx ! i), entry i j)) [0..<length idx])))
                [0..<length cls])"

text \<open>
  \<open>pd.DataFrame(expected, index=..., columns=...)\<close> raises when the matrix does not have
  the shape of the labels.
\<close>

definition expected_frame :: "contingency \<Rightarrow> real list list \<Rightarrow> pyexc + real list list" where
  "expected_frame ct expected =
     (if length expected = length (ct_index ct)
         \<and> list_all (\<lambda>row. length row = length (ct_columns ct)) expected
      then Inr expected
      else Inl (Raised ''Shape of passed values does not match the indices''))"

definition np_min :: "real list \<Rightarrow> pyexc + real" where
  "np_min xs =
     (case xs of [] \<Rightarrow> Inl (Raised ''zero-size array to reduction operation minimum'')
      | x # rest \<Rightarrow> Inr (foldl min x rest))"

definition fisher_label :: string where
  "fisher_label = ''Fisher'' @ [CHR 0x27] @ ''s Exact Test''"

definition chisquare_record ::
  "statlib \<Rightarrow> real \<Rightarrow> string \<Rightarrow> string \<Rightarrow> contingency \<Rightarrow> string \<Rightarrow> pyfloat \<Rightarrow> int \<Rightarrow> pyfloat
    \<Rightarrow> pyfloat option \<Rightarrow> real list list \<Rightarrow> real \<Rightarrow> bool \<Rightarrow> pydict" where
  "chisquare_record lib alpha var1 var2 ct test_type chi2 dof p_value odds_ratio expected
      min_expected use_fisher =
     (let n = sum_list (map sum_list (ct_counts ct));
          min_dim = min (int (fst (ct_shape ct)) - 1) (int (snd (ct_shape ct)) - 1);
          cramers_v = (if 0 < min_dim then np_sqrt (fdiv chi2 (Fl (of_int (n * min_dim)))) else Fl 0);
          phi = (if ct_shape ct = (2, 2) then Some (np_sqrt (fdiv chi2 (Fl (of_int n)))) else None)
      in [(''test_type'', VStr test_type),
          (''test_statistic'', VFloat (py_round chi2 4)),
          (''degrees_of_freedom'', VInt dof),
          (''p_value'', VFloat (py_round p_value 4)),
          (''significant'', VBool (flt p_value (Fl alpha))),
          (''alpha'', VFloat (Fl alpha)),
          (''effect_size'',
             VDict [(''cramers_v'', (if 0 < min_dim then VFloat (py_round cramers_v 4) else VInt 0)),
                    (''phi'', rounded_or_none phi),
                    (''odds_ratio'', rounded_or_none odds_ratio),
                    (''interpretation'', VStr (interpret_effect_size cramers_v ''cramers_v''))]),
          (''contingency_table'',
             VDict [(''observed'',
                       table_to_dict lib (ct_index ct) (ct_columns ct)
                         (\<lambda>i j. VInt (ct_counts ct ! i ! j))),
                    (''expected'',
                       table_to_dict lib (ct_index ct) (ct_columns ct)
                         (\<lambda>i j. VFloat (py_round (Fl (expected ! i ! j)) 2)))]),
          (''sample_size'', VInt n),
          (''assumptions'',
             VDict [(''expected_cell_counts'',
                       VDict [(''min_expected'', VFloat (py_round (Fl min_expected) 2)),
                              (''cells_below_5'',
                                 VInt (int (length (filter (\<lambda>x. x < 5) (concat expected))))),
                              (''fisher_recommended'', VBool use_fisher)])]),
          (''variables'', VDict [(''variable1'', VStr var1), (''variable2'', VStr var2)])])"

definition run_chisquare_body :: "statlib \<Rightarrow> real \<Rightarrow> data_frame \<Rightarrow> string \<Rightarrow> string \<Rightarrow> pyexc + pydict" where
  "run_chisquare_body lib alpha df var1 var2 =
     bind_exc (select2_dropna df var1 var2) (\<lambda>df_clean.
     (let contingency_table = crosstab lib df_clean
      in bind_exc (chi2_contingency lib (ct_counts contingency_table)) (\<lambda>(chi2, p_chi2, dof, expected).
         (let use_fisher = list_ex (\<lambda>x. x < 5) (concat expected)
          in bind_exc
               (if use_fisher \<and> ct_shape contingency_table = (2, 2)
                then bind_exc (fisher_exact lib (ct_counts contingency_table))
                       (\<lambda>(odds_ratio, p_fisher). Inr (fisher_label, Some odds_ratio, p_fisher))
                else Inr (''Chi-square Test of Independence'', None, p_chi2))
               (\<lambda>(test_type, odds_ratio, p_value).
                  bind_exc (expected_frame contingency_table expected) (\<lambda>expected_df.
                  bind_exc (np_min (concat expected)) (\<lambda>min_expected.
                  Inr (chisquare_record lib alpha var1 var2 contingency_table test_type chi2 dof
                         p_value odds_ratio expected_df min_expected use_fisher))))))))"

definition run_chisquare :: "statlib \<Rightarrow> real \<Rightarrow> data_frame \<Rightarrow> string \<Rightarrow> string \<Rightarrow> pydict" where
  "run_chisquare lib alpha df var1 var2 = try_except (run_chisquare_body lib alpha df var1 var2)"

subsection \<open>Helpers of the other tests\<close>

fun map_exc :: "('a \<Rightarrow> pyexc + 'b) \<Rightarrow> 'a list \<Rightarrow> pyexc + 'b list" where
  "map_exc f [] = Inr []"
| "map_exc f (x # xs) = bind_exc (f x) (\<lambda>y. bind_exc (map_exc f xs) (\<lambda>ys. Inr (y # ys)))"

definition nth_exc :: "'a list \<Rightarrow> nat \<Rightarrow> pyexc + 'a" where
  "nth_exc xs i = (if i < length xs then Inr (xs ! i) else Inl (IndexError ''index out of bounds''))"

text \<open>The built-in \<open>sum\<close>: from the integer 0, adding from the left.\<close>

definition py_sum :: "pyfloat list \<Rightarrow> pyfloat" where
  "py_sum xs = foldl fadd (Fl 0) xs"

text \<open>
  \<open>df[all_vars].dropna()\<close> for a list of columns: the rows in which no cell of the
  chosen columns is missing.
\<close>

definition complete_rows :: "nat \<Rightarrow> cell list list \<Rightarrow> bool list" where
  "complete_rows n css = foldr (\<lambda>cs m. map (\<lambda>(c, b). c \<noteq> Missing \<and> b) (zip cs m)) css (replicate n True)"

definition keep_rows :: "bool list \<Rightarrow> 'a list \<Rightarrow> 'a list" where
  "keep_rows m cs = map snd (filter fst (zip m cs))"

definition select_dropna :: "data_frame \<Rightarrow> string list \<Rightarrow> pyexc + (string \<times> cell list) list" where
  "select_dropna df names =
     bind_exc (map_exc (column df) names) (\<lambda>css.
     Inr (zip names (map (keep_rows (complete_rows (nrows df) css)) css)))"

definition frame_column :: "(string \<times> cell list) list \<Rightarrow> string \<Rightarrow> pyexc + cell list" where
  "frame_column fr name = (case map_of fr name of Some cs \<Rightarrow> Inr cs | None \<Rightarrow> Inl (KeyError name))"

definition frame_columns :: "(string \<times> cell list) list \<Rightarrow> string list \<Rightarrow> pyexc + (string \<times> cell list) list" where
  "frame_columns fr names = map_exc (\<lambda>name. bind_exc (frame_column fr name) (\<lambda>cs. Inr (name, cs))) names"

text \<open>\<open>predictors\<close> may be one name or a list of names.\<close>

datatype predictors_arg = OneName string | Names "string list"

definition predictor_list :: "predictors_arg \<Rightarrow> string list" where
  "predictor_list a = (case a of OneName s \<Rightarrow> [s] | Names l \<Rightarrow> l)"

definition median_iqr_block :: "statlib \<Rightarrow> real list \<Rightarrow> pyval" where
  "median_iqr_block lib g =
     VDict [(''n'', VInt (int (length g))),
            (''median'', VFloat (py_round (pd_median lib g) 4)),
            (''iqr'', VFloat (py_round (fsub (pd_quantile lib g (75 / 100)) (pd_quantile lib g (25 / 100))) 4))]"

text \<open>The per-group dictionary, filled group by group under the key \<open>str(g)\<close>.\<close>

definition group_dict :: "statlib \<Rightarrow> cell list \<Rightarrow> pyval list \<Rightarrow> pyval" where
  "group_dict lib groups blocks =
     VDict (foldl (\<lambda>d (g, b). dict_set d (str_cell lib g) b) [] (zip groups blocks))"

subsection \<open>run_anova\<close>

definition posthoc_entry :: "statlib \<Rightarrow> tukey_row \<Rightarrow> pyval" where
  "posthoc_entry lib row =
     VDict [(''group1'', VStr (str_cell lib (tk_group1 row))),
            (''group2'', VStr (str_cell lib (tk_group2 row))),
            (''mean_diff'', VFloat (py_round (tk_meandiff row) 4)),
            (''p_adj'', VFloat (py_round (tk_p_adj row) 4)),
            (''ci_lower'', VFloat (py_round (tk_lower row) 4)),
            (''ci_upper'', VFloat (py_round (tk_upper row) 4)),
            (''significant'', VBool (tk_reject row))]"

definition anova_record ::
  "statlib \<Rightarrow> real \<Rightarrow> string \<Rightarrow> string \<Rightarrow> cell list \<Rightarrow> real list list \<Rightarrow> nat
    \<Rightarrow> pyfloat \<Rightarrow> pyfloat \<Rightarrow> pyfloat \<Rightarrow> pyfloat \<Rightarrow> tukey_row list \<Rightarrow> pyfloat \<Rightarrow> pyfloat \<Rightarrow> pydict" where
  "anova_record lib alpha group_var outcome_var groups group_data n_total f_stat p_value
      ss_between ss_total tukey levene_stat levene_p =
     (let k = int (length groups);
          eta_squared = (if fgt ss_total (Fl 0) then fdiv ss_between ss_total else Fl 0);
          ms_within = fdiv (fsub ss_total ss_between) (Fl (of_int (int n_total - k)));
          omega_squared = fdiv (fsub ss_between (fmul (Fl (of_int (k - 1))) ms_within))
                               (fadd ss_total ms_within)
      in [(''test_type'', VStr ''One-way ANOVA''),
          (''test_statistic'', VFloat (py_round f_stat 4)),
          (''degrees_of_freedom'', VDict [(''between'', VInt (k - 1)), (''within'', VInt (int n_total - k))]),
          (''p_value'', VFloat (py_round p_value 4)),
          (''significant'', VBool (flt p_value (Fl alpha))),
          (''alpha'', VFloat (Fl alpha)),
          (''effect_size'',
             VDict [(''eta_squared'',
                       (if fgt ss_total (Fl 0) then VFloat (py_round eta_squared 4) else VInt 0)),
                    (''omega_squared'', VFloat (py_round omega_squared 4)),
                    (''interpretation'', VStr (interpret_effect_size eta_squared ''eta_squared''))]),
          (''group_statistics'', group_dict lib groups (map group_statistics_block group_data)),
          (''posthoc'',
             VDict [(''method'', VStr ''Tukey HSD''),
                    (''comparisons'', VList (map (posthoc_entry lib) tukey))]),
          (''assumptions'',
             VDict [(''homogeneity_of_variance'',
                       VDict [(''levene_stat'', VFloat (py_round levene_stat 4)),
                              (''p_value'', VFloat (py_round levene_p 4)),
                              (''equal'', VBool (fgt levene_p (Fl alpha)))])]),
          (''variables'',
             VDict [(''group'', VStr group_var),
                    (''outcome'', VStr outcome_var),
                    (''groups'', VList (map (\<lambda>g. VStr (str_cell lib g)) groups))])])"

definition run_anova_body :: "statlib \<Rightarrow> real \<Rightarrow> data_frame \<Rightarrow> string \<Rightarrow> string \<Rightarrow> pyexc + pydict" where
  "run_anova_body lib alpha df group_var outcome_var =
     bind_exc (select2_dropna df group_var outcome_var) (\<lambda>df_clean.
     (let groups = unique (map fst df_clean)
      in if length groups < 3
         then Inr (error_record ''ANOVA requires 3 or more groups. Use t-test for 2 groups.'')
         else
           bind_exc (map_exc (\<lambda>g. as_numeric (group_rows df_clean g)) groups) (\<lambda>group_data.
           bind_exc (f_oneway lib group_data) (\<lambda>(f_stat, p_value).
           bind_exc (as_numeric (map snd df_clean)) (\<lambda>outcome.
           (let grand_mean = pd_mean outcome;
                ss_between = py_sum (map (\<lambda>g. fmul (Fl (of_nat (length g)))
                                                (fmul (fsub (pd_mean g) grand_mean)
                                                      (fsub (pd_mean g) grand_mean))) group_data);
                ss_total = py_sum (map (\<lambda>x. fmul (fsub (Fl x) grand_mean) (fsub (Fl x) grand_mean)) outcome)
            in bind_exc (pairwise_tukeyhsd lib (map snd df_clean) (map fst df_clean) alpha) (\<lambda>tukey.
               bind_exc (levene lib group_data) (\<lambda>(levene_stat, levene_p).
               Inr (anova_record lib alpha group_var outcome_var groups group_data (length df_clean)
                      f_stat p_value ss_between ss_total tukey levene_stat levene_p)))))))))"

definition run_anova :: "statlib \<Rightarrow> real \<Rightarrow> data_frame \<Rightarrow> string \<Rightarrow> string \<Rightarrow> pydict" where
  "run_anova lib alpha df group_var outcome_var = try_except (run_anova_body lib alpha df group_var outcome_var)"

subsection \<open>run_correlation\<close>

definition correlation_strength :: "pyfloat \<Rightarrow> string" where
  "correlation_strength r =
     (let abs_r = fabs r
      in if flt abs_r (Fl (1 / 10)) then ''negligible''
         else if flt abs_r (Fl (3 / 10)) then ''weak''
         else if flt abs_r (Fl (5 / 10)) then ''moderate''
         else if flt abs_r (Fl (7 / 10)) then ''strong''
         else ''very strong'')"

definition correlation_record ::
  "statlib \<Rightarrow> real \<Rightarrow> string \<Rightarrow> string \<Rightarrow> string \<Rightarrow> nat \<Rightarrow> pyfloat \<Rightarrow> pyfloat \<Rightarrow> pydict" where
  "correlation_record lib alpha var1 var2 test_type n r p_value =
     (let z = np_arctanh lib r;
          se = fdiv (Fl 1) (np_sqrt (Fl (of_int (int n - 3))));
          z_ci = (fsub z (fmul (Fl (196 / 100)) se), fadd z (fmul (Fl (196 / 100)) se));
          r_ci = (np_tanh lib (fst z_ci), np_tanh lib (snd z_ci));
          r_squared = fmul r r
      in [(''test_type'', VStr test_type),
          (''correlation_coefficient'', VFloat (py_round r 4)),
          (''p_value'', VFloat (py_round p_value 4)),
          (''significant'', VBool (flt p_value (Fl alpha))),
          (''alpha'', VFloat (Fl alpha)),
          (''r_squared'', VFloat (py_round r_squared 4)),
          (''confidence_interval'',
             VDict [(''ci_95'', VTuple [VFloat (py_round (fst r_ci) 4), VFloat (py_round (snd r_ci) 4)])]),
          (''interpretation'',
             VDict [(''strength'', VStr (correlation_strength r)),
                    (''direction'', VStr (if fgt r (Fl 0) then ''positive'' else ''negative'')),
                    (''effect_size'', VStr (interpret_effect_size r ''r''))]),
          (''sample_size'', VInt (int n)),
          (''variables'', VDict [(''variable1'', VStr var1), (''variable2'', VStr var2)])])"

definition run_correlation_body ::
  "statlib \<Rightarrow> real \<Rightarrow> data_frame \<Rightarrow> string \<Rightarrow> string \<Rightarrow> string \<Rightarrow> pyexc + pydict" where
  "run_correlation_body lib alpha df var1 var2 method =
     bind_exc (select2_dropna df var1 var2) (\<lambda>df_clean.
     (let x = map fst df_clean; y = map snd df_clean; n = length x
      in bind_exc
           (if method = ''pearson''
            then bind_exc (pearsonr lib x y) (\<lambda>(r, p_value). Inr (r, p_value, ''Pearson Correlation''))
            else bind_exc (spearmanr lib x y) (\<lambda>(r, p_value). Inr (r, p_value, ''Spearman Correlation'')))
           (\<lambda>(r, p_value, test_type).
              Inr (correlation_record lib alpha var1 var2 test_type n r p_value))))"

definition run_correlation :: "statlib \<Rightarrow> real \<Rightarrow> data_frame \<Rightarrow> string \<Rightarrow> string \<Rightarrow> string \<Rightarrow> pydict" where
  "run_correlation lib alpha df var1 var2 method =
     try_except (run_correlation_body lib alpha df var1 var2 method)"

subsection \<open>run_mannwhitney\<close>

definition mannwhitney_record ::
  "statlib \<Rightarrow> real \<Rightarrow> string \<Rightarrow> string \<Rightarrow> cell list \<Rightarrow> real list \<Rightarrow> real list
    \<Rightarrow> pyfloat \<Rightarrow> pyfloat \<Rightarrow> pydict" where
  "mannwhitney_record lib alpha group_var outcome_var groups group1_data group2_data u_stat p_value =
     (let n1 = int (length group1_data); n2 = int (length group2_data);
          r = fsub (Fl 1) (fdiv (fmul (Fl 2) u_stat) (Fl (of_int (n1 * n2))))
      in [(''test_type'', VStr ''Mann-Whitney U Test''),
          (''test_statistic'', VFloat (py_round u_stat 4)),
          (''p_value'', VFloat (py_round p_value 4)),
          (''significant'', VBool (flt p_value (Fl alpha))),
          (''alpha'', VFloat (Fl alpha)),
          (''effect_size'',
             VDict [(''rank_biserial_r'', VFloat (py_round r 4)),
                    (''interpretation'', VStr (interpret_effect_size r ''r''))]),
          (''group_statistics'',
             VDict (dict_set [(str_cell lib (groups ! 0), median_iqr_block lib group1_data)]
                      (str_cell lib (groups ! 1)) (median_iqr_block lib group2_data))),
          (''variables'',
             VDict [(''group'', VStr group_var),
                    (''outcome'', VStr outcome_var),
                    (''groups'', VList (map (\<lambda>g. VStr (str_cell lib g)) groups))])])"

definition run_mannwhitney_body :: "statlib \<Rightarrow> real \<Rightarrow> data_frame \<Rightarrow> string \<Rightarrow> string \<Rightarrow> pyexc + pydict" where
  "run_mannwhitney_body lib alpha df group_var outcome_var =
     bind_exc (select2_dropna df group_var outcome_var) (\<lambda>df_clean.
     (let groups = unique (map fst df_clean)
      in if length groups \<noteq> 2
         then Inr (error_record (''Mann-Whitney U requires exactly 2 groups, found '' @ str_nat (length groups)))
         else
           (let group1_cells = group_rows df_clean (groups ! 0);
                group2_cells = group_rows df_clean (groups ! 1)
            in bind_exc (mannwhitneyu lib group1_cells group2_cells) (\<lambda>(u_stat, p_value).
               bind_exc (as_numeric group1_cells) (\<lambda>group1_data.
               bind_exc (as_numeric group2_cells) (\<lambda>group2_data.
               Inr (mannwhitney_record lib alpha group_var outcome_var groups group1_data group2_data
                      u_stat p_value)))))))"

definition run_mannwhitney :: "statlib \<Rightarrow> real \<Rightarrow> data_frame \<Rightarrow> string \<Rightarrow> string \<Rightarrow> pydict" where
  "run_mannwhitney lib alpha df group_var outcome_var =
     try_except (run_mannwhitney_body lib alpha df group_var outcome_var)"

subsection \<open>run_kruskal\<close>

definition kruskal_record ::
  "statlib \<Rightarrow> real \<Rightarrow> string \<Rightarrow> string \<Rightarrow> cell list \<Rightarrow> real list list \<Rightarrow> nat
    \<Rightarrow> pyfloat \<Rightarrow> pyfloat \<Rightarrow> pydict" where
  "kruskal_record lib alpha group_var outcome_var groups group_data n h_stat p_value =
     (let k = int (length groups);
          epsilon_sq = fdiv h_stat (Fl (of_int (int n - 1)))
      in [(''test_type'', VStr ''Kruskal-Wallis H Test''),
          (''test_statistic'', VFloat (py_round h_stat 4)),
          (''degrees_of_freedom'', VInt (k - 1)),
          (''p_value'', VFloat (py_round p_value 4)),
          (''significant'', VBool (flt p_value (Fl alpha))),
          (''alpha'', VFloat (Fl alpha)),
          (''effect_size'',
             VDict [(''epsilon_squared'', VFloat (py_round epsilon_sq 4)),
                    (''interpretation'', VStr (interpret_effect_size epsilon_sq ''eta_squared''))]),
          (''group_statistics'', group_dict lib groups (map (median_iqr_block lib) group_data)),
          (''variables'',
             VDict [(''group'', VStr group_var),
                    (''outcome'', VStr outcome_var),
                    (''groups'', VList (map (\<lambda>g. VStr (str_cell lib g)) groups))])])"

definition run_kruskal_body :: "statlib \<Rightarrow> real \<Rightarrow> data_frame \<Rightarrow> string \<Rightarrow> string \<Rightarrow> pyexc + pydict" where
  "run_kruskal_body lib alpha df group_var outcome_var =
     bind_exc (select2_dropna df group_var outcome_var) (\<lambda>df_clean.
     (let groups = unique (map fst df_clean)
      in if length groups < 3
         then Inr (error_record ''Kruskal-Wallis requires 3 or more groups. Use Mann-Whitney U for 2 groups.'')
         else
           bind_exc (kruskal lib (map (group_rows df_clean) groups)) (\<lambda>(h_stat, p_value).
           bind_exc (map_exc (\<lambda>g. as_numeric (group_rows df_clean g)) groups) (\<lambda>group_data.
           Inr (kruskal_record lib alpha group_var outcome_var groups group_data (length df_clean)
                  h_stat p_value)))))"

definition run_kruskal :: "statlib \<Rightarrow> real \<Rightarrow> data_frame \<Rightarrow> string \<Rightarrow> string \<Rightarrow> pydict" where
  "run_kruskal lib alpha df group_var outcome_var =
     try_except (run_kruskal_body lib alpha df group_var outcome_var)"

subsection \<open>run_linear_regression\<close>

definition linear_coefficient ::
  "real \<Rightarrow> ols_model \<Rightarrow> (string \<times> cell list) list \<Rightarrow> cell list \<Rightarrow> nat \<times> string \<Rightarrow> pyexc + pyval" where
  "linear_coefficient alpha model X y iv =
     (let i = fst iv; var = snd iv
      in bind_exc (nth_exc (ols_params model) i) (\<lambda>coef.
         bind_exc (nth_exc (ols_bse model) i) (\<lambda>se.
         bind_exc (nth_exc (ols_tvalues model) i) (\<lambda>t_val.
         bind_exc (nth_exc (ols_pvalues model) i) (\<lambda>p_val.
         bind_exc (nth_exc (ols_conf_int model) i) (\<lambda>ci.
         bind_exc
           (if var = ''const'' then Inr None
            else bind_exc (frame_column X var) (\<lambda>xc.
                 bind_exc (as_numeric xc) (\<lambda>xs.
                 bind_exc (as_numeric y) (\<lambda>ys.
                 Inr (Some (fmul coef (fdiv (pd_std xs) (pd_std ys))))))))
           (\<lambda>beta.
              Inr (VDict [(''variable'', VStr var),
                          (''B'', VFloat (py_round coef 4)),
                          (''SE'', VFloat (py_round se 4)),
                          (''beta'', (case beta of None \<Rightarrow> VNone | Some b \<Rightarrow> VFloat (py_round b 4))),
                          (''t'', VFloat (py_round t_val 4)),
                          (''p'', VFloat (py_round p_val 4)),
                          (''ci_95'', VTuple [VFloat (py_round (fst ci) 4), VFloat (py_round (snd ci) 4)]),
                          (''significant'', VBool (flt p_val (Fl alpha)))]))))))))"

definition vif_entry :: "statlib \<Rightarrow> (string \<times> cell list) list \<Rightarrow> nat \<times> string \<Rightarrow> pyexc + pyval" where
  "vif_entry lib X iv =
     bind_exc (variance_inflation_factor lib X (fst iv)) (\<lambda>vif.
     Inr (VDict [(''variable'', VStr (snd iv)),
                 (''VIF'', VFloat (py_round vif 4)),
                 (''concern'', VBool (fgt vif (Fl 5))),
                 (''severe'', VBool (fgt vif (Fl 10)))]))"

definition linear_regression_record ::
  "real \<Rightarrow> string \<Rightarrow> string list \<Rightarrow> ols_model \<Rightarrow> pyval list \<Rightarrow> nat \<Rightarrow> pyval list
    \<Rightarrow> (pyfloat \<times> pyfloat) option \<Rightarrow> pyfloat \<Rightarrow> pyfloat \<Rightarrow> pyfloat \<Rightarrow> pydict" where
  "linear_regression_record alpha outcome predictors model coefficients sample_size vif_data
      shapiro_res bp_stat bp_p dw =
     [(''test_type'',
         VStr (if 1 < length predictors then ''Multiple Linear Regression''
               else ''Simple Linear Regression'')),
      (''model_summary'',
         VDict [(''r_squared'', VFloat (py_round (ols_rsquared model) 4)),
                (''r_squared_adj'', VFloat (py_round (ols_rsquared_adj model) 4)),
                (''f_statistic'', VFloat (py_round (ols_fvalue model) 4)),
                (''f_pvalue'', VFloat (py_round (ols_f_pvalue model) 4)),
                (''significant'', VBool (flt (ols_f_pvalue model) (Fl alpha))),
                (''aic'', VFloat (py_round (ols_aic model) 4)),
                (''bic'', VFloat (py_round (ols_bic model) 4))]),
      (''coefficients'', VList coefficients),
      (''sample_size'', VInt (int sample_size)),
      (''effect_size'',
         VDict [(''r_squared'', VFloat (py_round (ols_rsquared model) 4)),
                (''interpretation'', VStr (interpret_effect_size (ols_rsquared model) ''r_squared''))]),
      (''multicollinearity'', (if vif_data \<noteq> [] then VList vif_data else VNone)),
      (''assumptions'',
         VDict [(''normality_of_residuals'', normality_block alpha shapiro_res),
                (''homoscedasticity'',
                   VDict [(''breusch_pagan_stat'', VFloat (py_round bp_stat 4)),
                          (''p_value'', VFloat (py_round bp_p 4)),
                          (''homoscedastic'', VBool (fgt bp_p (Fl alpha)))]),
                (''independence'',
                   VDict [(''durbin_watson'', VFloat (py_round dw 4)),
                          (''interpretation'',
                             VStr (if flt dw (Fl (15 / 10)) then ''positive autocorrelation''
                                   else if fgt dw (Fl (25 / 10)) then ''negative autocorrelation''
                                   else ''no autocorrelation''))])]),
      (''variables'',
         VDict [(''outcome'', VStr outcome), (''predictors'', VList (map VStr predictors))])]"

definition run_linear_regression_body ::
  "statlib \<Rightarrow> real \<Rightarrow> data_frame \<Rightarrow> string \<Rightarrow> predictors_arg \<Rightarrow> pyexc + pydict" where
  "run_linear_regression_body lib alpha df outcome predictors_in =
     (let predictors = predictor_list predictors_in;
          all_vars = outcome # predictors
      in bind_exc (select_dropna df all_vars) (\<lambda>df_clean.
         bind_exc (frame_columns df_clean predictors) (\<lambda>X.
         bind_exc (frame_column df_clean outcome) (\<lambda>y.
         bind_exc (ols_fit lib y X) (\<lambda>model.
         bind_exc (map_exc (linear_coefficient alpha model X y)
                     (zip [0..<Suc (length predictors)] (''const'' # predictors))) (\<lambda>coefficients.
         bind_exc (if 1 < length predictors
                   then map_exc (vif_entry lib X) (zip [0..<length predictors] predictors)
                   else Inr []) (\<lambda>vif_data.
         bind_exc (shapiro_if lib (length (ols_resid model) \<le> 5000) (ols_resid model)) (\<lambda>shapiro_res.
         bind_exc (het_breuschpagan lib (ols_resid model) X) (\<lambda>(bp_stat, bp_p).
         bind_exc (durbin_watson lib (ols_resid model)) (\<lambda>dw.
         Inr (linear_regression_record alpha outcome predictors model coefficients (length y)
                vif_data shapiro_res bp_stat bp_p dw)))))))))))"

definition run_linear_regression ::
  "statlib \<Rightarrow> real \<Rightarrow> data_frame \<Rightarrow> string \<Rightarrow> predictors_arg \<Rightarrow> pydict" where
  "run_linear_regression lib alpha df outcome predictors_in =
     try_except (run_linear_regression_body lib alpha df outcome predictors_in)"

subsection \<open>run_logistic_regression\<close>

definition logistic_coefficient ::
  "statlib \<Rightarrow> real \<Rightarrow> logit_model \<Rightarrow> nat \<times> string \<Rightarrow> pyexc + pyval" where
  "logistic_coefficient lib alpha model iv =
     (let i = fst iv; var = snd iv
      in bind_exc (nth_exc (logit_params model) i) (\<lambda>coef.
         bind_exc (nth_exc (logit_bse model) i) (\<lambda>se.
         bind_exc (nth_exc (logit_tvalues model) i) (\<lambda>z_val.
         bind_exc (nth_exc (logit_pvalues model) i) (\<lambda>p_val.
         bind_exc (nth_exc (logit_conf_int model) i) (\<lambda>ci.
         (let odds_ratio = np_exp lib coef;
              or_ci = (np_exp lib (fst ci), np_exp lib (snd ci))
          in Inr (VDict [(''variable'', VStr var),
                         (''B'', VFloat (py_round coef 4)),
                         (''SE'', VFloat (py_round se 4)),
                         (''Wald'', VFloat (py_round (fmul z_val z_val) 4)),
                         (''z'', VFloat (py_round z_val 4)),
                         (''p'', VFloat (py_round p_val 4)),
                         (''OR'', VFloat (py_round odds_ratio 4)),
                         (''OR_ci_95'', VTuple [VFloat (py_round (fst or_ci) 4),
                                                VFloat (py_round (snd or_ci) 4)]),
                         (''significant'', VBool (flt p_val (Fl alpha)))]))))))))"

definition logistic_regression_record ::
  "real \<Rightarrow> string \<Rightarrow> string list \<Rightarrow> logit_model \<Rightarrow> pyval list \<Rightarrow> nat \<Rightarrow> pyfloat
    \<Rightarrow> int list list \<Rightarrow> pydict" where
  "logistic_regression_record alpha outcome predictors model coefficients sample_size accuracy cm =
     (let pseudo_r2 = logit_prsquared model
      in [(''test_type'', VStr ''Binary Logistic Regression''),
          (''model_summary'',
             VDict [(''pseudo_r_squared'', VFloat (py_round pseudo_r2 4)),
                    (''log_likelihood'', VFloat (py_round (logit_llf model) 4)),
                    (''aic'', VFloat (py_round (logit_aic model) 4)),
                    (''bic'', VFloat (py_round (logit_bic model) 4)),
                    (''llr_pvalue'', VFloat (py_round (logit_llr_pvalue model) 4)),
                    (''significant'', VBool (flt (logit_llr_pvalue model) (Fl alpha)))]),
          (''coefficients'', VList coefficients),
          (''sample_size'', VInt (int sample_size)),
          (''classification'',
             VDict [(''accuracy'', VFloat (py_round accuracy 4)),
                    (''confusion_matrix'', VList (map (\<lambda>row. VList (map VInt row)) cm))]),
          (''effect_size'',
             VDict [(''pseudo_r_squared'', VFloat (py_round pseudo_r2 4)),
                    (''interpretation'',
                       VStr (if fgt pseudo_r2 (Fl (4 / 10)) then ''excellent''
                             else if fgt pseudo_r2 (Fl (2 / 10)) then ''good''
                             else ''acceptable''))]),
          (''variables'',
             VDict [(''outcome'', VStr outcome), (''predictors'', VList (map VStr predictors))])])"

definition is_text :: "cell \<Rightarrow> bool" where
  "is_text c = (case c of Txt s \<Rightarrow> True | _ \<Rightarrow> False)"

definition run_logistic_regression_body ::
  "statlib \<Rightarrow> real \<Rightarrow> data_frame \<Rightarrow> string \<Rightarrow> predictors_arg \<Rightarrow> pyexc + pydict" where
  "run_logistic_regression_body lib alpha df outcome predictors_in =
     (let predictors = predictor_list predictors_in;
          all_vars = outcome # predictors
      in bind_exc (select_dropna df all_vars) (\<lambda>df_clean.
         bind_exc (frame_column df_clean outcome) (\<lambda>y_cells.
         (let unique_vals = unique y_cells
          in if length unique_vals \<noteq> 2
             then Inr (error_record (''Logistic regression requires binary outcome. Found ''
                         @ str_nat (length unique_vals) @ '' unique values.''))
             else
               bind_exc (frame_columns df_clean predictors) (\<lambda>X.
               bind_exc (if list_ex is_text y_cells then categorical_codes lib y_cells
                         else as_numeric y_cells) (\<lambda>y.
               bind_exc (logit_fit lib (map Num y) X) (\<lambda>model.
               bind_exc (map_exc (logistic_coefficient lib alpha model)
                           (zip [0..<Suc (length predictors)] (''const'' # predictors))) (\<lambda>coefficients.
               bind_exc (logit_predict model) (\<lambda>probabilities.
               (let predicted = map (\<lambda>q. if fgt q (Fl (5 / 10)) then (1::int) else 0) probabilities
                in bind_exc (if length predicted = length y then Inr ()
                             else Inl (Raised ''operands could not be broadcast together'')) (\<lambda>u.
                   (let accuracy = pd_mean (map (\<lambda>(a, b). if of_int a = b then 1 else 0) (zip predicted y))
                    in bind_exc (confusion_matrix lib y predicted) (\<lambda>cm.
                       Inr (logistic_regression_record alpha outcome predictors model coefficients
                              (length y_cells) accuracy cm))))))))))))))"

definition run_logistic_regression ::
  "statlib \<Rightarrow> real \<Rightarrow> data_frame \<Rightarrow> string \<Rightarrow> predictors_arg \<Rightarrow> pydict" where
  "run_logistic_regression lib alpha df outcome predictors_in =
     try_except (run_logistic_regression_body lib alpha df outcome predictors_in)"

section \<open>analysis/assumptions.py: AssumptionChecker.check_normality\<close>







section \<open>A library instance for concrete inputs\<close>

text \<open>
  The concrete inputs below need one library to run on. Its label order is the order of
  numbers and of strings (labels of one kind). Its \<open>chi2_contingency\<close> follows the
  documentation of scipy: the expected frequencies are the products of the marginal sums
  over the total, a table with a zero expected frequency is refused, and with one degree
  of freedom each observed count is moved by at most 0.5 towards its expected frequency
  (Yates) before Pearson's statistic is summed; the tail probability of the chi-square
  distribution is a parameter of it. The other tests return fixed numbers.
\<close>

fun str_le :: "string \<Rightarrow> string \<Rightarrow> bool" where
  "str_le [] t = True"
| "str_le (c # cs) [] = False"
| "str_le (c # cs) (d # ds) = ((of_char c :: nat) < of_char d \<or> (c = d \<and> str_le cs ds))"

fun label_le :: "cell \<Rightarrow> cell \<Rightarrow> bool" where
  "label_le (Num x) (Num y) = (x \<le> y)"
| "label_le (Txt s) (Txt t) = str_le s t"
| "label_le Missing b = True"
| "label_le (Num x) b = True"
| "label_le a b = False"

fun insert_label :: "cell \<Rightarrow> cell list \<Rightarrow> cell list" where
  "insert_label a [] = [a]"
| "insert_label a (b # bs) = (if label_le a b then a # b # bs else b # insert_label a bs)"

definition sort_label_list :: "cell list \<Rightarrow> cell list" where
  "sort_label_list ls = foldr insert_label ls []"

definition expected_freq :: "int list list \<Rightarrow> real list list" where
  "expected_freq observed =
     (let row_sums = map sum_list observed;
          col_sums = map (\<lambda>j. sum_list (map (\<lambda>row. row ! j) observed)) [0..<length (hd observed)];
          total = sum_list row_sums
      in map (\<lambda>r. map (\<lambda>c. of_int r * of_int c / of_int total) col_sums) row_sums)"

definition yates :: "int \<Rightarrow> real \<Rightarrow> real" where
  "yates obs e = of_int obs + min (1 / 2) \<bar>e - of_int obs\<bar> * sgn (e - of_int obs)"

definition pearson_sum :: "real list \<Rightarrow> real list \<Rightarrow> real" where
  "pearson_sum obs es = sum_list (map (\<lambda>(ob, e). (ob - e)\<^sup>2 / e) (zip obs es))"

definition doc_chi2_contingency ::
  "(real \<Rightarrow> int \<Rightarrow> real) \<Rightarrow> int list list \<Rightarrow> pyexc + pyfloat \<times> pyfloat \<times> int \<times> real list list" where
  "doc_chi2_contingency chi2_sf observed =
     (if list_ex (\<lambda>x. x < 0) (concat observed)
      then Inl (Raised ''All values in observed must be nonnegative.'')
      else if concat observed = []
      then Inl (Raised ''No data; observed has size 0.'')
      else
        (let expected = expected_freq observed;
             dof = (int (length observed) - 1) * (int (length (hd observed)) - 1)
         in if list_ex (\<lambda>e. e = 0) (concat expected)
            then Inl (Raised ''The internally computed table of expected frequencies has a zero element'')
            else if dof = 0 then Inr (Fl 0, Fl 1, dof, expected)
            else
              (let adjusted =
                     (if dof = 1 then map (\<lambda>(ob, e). yates ob e) (zip (concat observed) (concat expected))
                      else map of_int (concat observed));
                   chi2 = pearson_sum adjusted (concat expected)
               in Inr (Fl chi2, Fl (chi2_sf chi2 dof), dof, expected))))"

definition sample_ols :: ols_model where
  "sample_ols =
     \<lparr>ols_params = [Fl 1, Fl 2], ols_bse = [Fl (1 / 10), Fl (2 / 10)],
      ols_tvalues = [Fl 10, Fl 10], ols_pvalues = [Fl (1 / 1000), Fl (1 / 1000)],
      ols_conf_int = [(Fl (8 / 10), Fl (12 / 10)), (Fl (16 / 10), Fl (24 / 10))],
      ols_resid = [0, 0, 0], ols_rsquared = Fl (9 / 10), ols_rsquared_adj = Fl (89 / 100),
      ols_fvalue = Fl 100, ols_f_pvalue = Fl (1 / 1000), ols_aic = Fl 10, ols_bic = Fl 11\<rparr>"

definition sample_logit :: logit_model where
  "sample_logit =
     \<lparr>logit_params = [Fl 0, Fl 1], logit_bse = [Fl (1 / 10), Fl (2 / 10)],
      logit_tvalues = [Fl 0, Fl 5], logit_pvalues = [Fl 1, Fl (1 / 1000)],
      logit_conf_int = [(Fl (- 1), Fl 1), (Fl (1 / 2), Fl (3 / 2))],
      logit_prsquared = Fl (3 / 10), logit_llf = Fl (- 5), logit_aic = Fl 14, logit_bic = Fl 15,
      logit_llr_pvalue = Fl (1 / 100), logit_predict = Inr [Fl (1 / 4), Fl (3 / 4)]\<rparr>"

definition sample_lib :: "pyfloat \<Rightarrow> statlib" where
  "sample_lib levene_p =
     \<lparr>str_num = (\<lambda>x. ''number''),
      sort_labels = sort_label_list,
      norm_ppf = (\<lambda>q. Fl (196 / 100)),
      t_ppf = (\<lambda>q dof. Fl 2),
      np_arctanh = (\<lambda>a. a),
      np_tanh = (\<lambda>a. a),
      np_exp = (\<lambda>a. Fl 1),
      pd_median = (\<lambda>xs. pd_mean xs),
      pd_quantile = (\<lambda>xs q. pd_mean xs),
      pd_skew = (\<lambda>xs. if length xs < 3 then NaN else Fl 0),
      pd_kurtosis = (\<lambda>xs. if length xs < 4 then NaN else Fl 0),
      levene = (\<lambda>groups. Inr (Fl (12345 / 10000), levene_p)),
      ttest_ind = (\<lambda>a b equal_var. Inr (if equal_var then Fl (- 5) else Fl (- 4), Fl (1 / 1000))),
      ttest_rel = (\<lambda>a b. Inr (Fl (- 3), Fl (1 / 100))),
      shapiro = (\<lambda>xs. if length xs < 3 then Inl (Raised ''Data must be at least length 3.'')
                      else Inr (Fl (95 / 100), Fl (1 / 2))),
      normaltest = (\<lambda>xs. Inr (Fl 1, Fl (1 / 2))),
      f_oneway = (\<lambda>groups. Inr (Fl 4, Fl (1 / 100))),
      pairwise_tukeyhsd = (\<lambda>xs gs a. Inr []),
      chi2_contingency = doc_chi2_contingency (\<lambda>x dof. 57 / 1000000),
      fisher_exact = (\<lambda>t. Inr (PosInf, Fl (1 / 100000))),
      pearsonr = (\<lambda>xs ys. Inr (Fl (1 / 2), Fl (1 / 100))),
      spearmanr = (\<lambda>xs ys. Inr (Fl (1 / 2), Fl (1 / 100))),
      ols_fit = (\<lambda>y X. Inr sample_ols),
      variance_inflation_factor = (\<lambda>X i. Inr (Fl 1)),
      het_breuschpagan = (\<lambda>r X. Inr (Fl 1, Fl (1 / 2))),
      durbin_watson = (\<lambda>r. Inr (Fl 2)),
      logit_fit = (\<lambda>y X. Inr sample_logit),
      categorical_codes = (\<lambda>cs. Inr (map (\<lambda>c. if c = hd (sort_label_list (unique cs)) then 0 else 1) cs)),
      confusion_matrix = (\<lambda>y p. Inr [[1, 0], [0, 1]]),
      mannwhitneyu = (\<lambda>a b. Inr (Fl 2, Fl (1 / 100))),
      kruskal = (\<lambda>groups. Inr (Fl 6, Fl (1 / 20)))\<rparr>"

text \<open>
  Two groups of five scores (the first scenario of the specification), and twenty rows of
  two categories whose contingency table is \<open>[[10, 0], [0, 10]]\<close>.
\<close>

definition two_groups_frame :: data_frame where
  "two_groups_frame =
     \<lparr>nrows = 11,
      cols = [(''group'', [Txt ''a'', Txt ''a'', Txt ''a'', Txt ''a'', Txt ''a'',
                            Txt ''b'', Txt ''b'', Txt ''b'', Txt ''b'', Txt ''b'', Txt ''b'']),
              (''score'', [Num 1, Num 2, Num 3, Num 4, Num 5,
                            Num 6, Num 7, Num 8, Num 9, Num 10, Missing])]\<rparr>"



section \<open>Properties of result records\<close>

text \<open>
  A record that carries solely an error message, and the shape every result of a test
  method is claimed to have: error-only, or without the key \<open>error\<close>.
\<close>

definition is_error_record :: "pydict \<Rightarrow> bool" where
  "is_error_record r = (case r of [(k, VStr m)] \<Rightarrow> k = ''error'' | _ \<Rightarrow> False)"

definition well_formed_result :: "pydict \<Rightarrow> bool" where
  "well_formed_result r = (is_error_record r \<or> ''error'' \<notin> set (keys r))"

definition body_ok :: "pyexc + pydict \<Rightarrow> bool" where
  "body_ok b = (case b of Inl e \<Rightarrow> True | Inr r \<Rightarrow> well_formed_result r)"

text \<open>
  Every float inside a value is unchanged by rounding to \<open>nd\<close> decimal places: it has at
  most \<open>nd\<close> decimals, or is an infinity or NaN.
\<close>

fun rounded :: "nat \<Rightarrow> pyval \<Rightarrow> bool" where
  "rounded nd VNone = True"
| "rounded nd (VBool b) = True"
| "rounded nd (VInt i) = True"
| "rounded nd (VFloat a) = (py_round a nd = a)"
| "rounded nd (VStr s) = True"
| "rounded nd (VTuple vs) = list_all (rounded nd) vs"
| "rounded nd (VList vs) = list_all (rounded nd) vs"
| "rounded nd (VDict kvs) = list_all (rounded nd) (map snd kvs)"





definition failing_lib :: statlib where
  "failing_lib =
     (sample_lib (Fl (1 / 2)))
       \<lparr>levene := (\<lambda>groups. Inl (Raised ''Levene: input failed'')),
        ols_fit := (\<lambda>y X. Inl (Raised ''Singular matrix''))\<rparr>"




section \<open>The audit trail\<close>

lemma audit_step_shape: "append_clear_or_undo (entries s) (entries (audit_step s op))"
  by (cases op)
    (simp_all add: append_clear_or_undo_def append_or_clear_def appended_def log_def clear_def
      undo_last_def Let_def)

lemma audit_step_kept: "kept_unchanged (entries s) (entries (audit_step s op))"
proof (cases op)
  case OpUndoLast
  then show ?thesis
    by (cases "entries s")
      (simp_all add: kept_unchanged_def undo_last_def butlast_conv_take min_def)
qed (simp_all add: kept_unchanged_def log_def clear_def Let_def)

text \<open>
  C6, as stated: every operation leaves the entries alone, appends one or clears them all.
  It fails for \<open>undo_last\<close>: after two logged entries it removes the second and keeps the
  first, which is neither an append nor a bulk clear.
\<close>

theorem C6_undo_last_counterexample:
  "\<not> append_or_clear (entries two_logged) (entries (audit_step two_logged OpUndoLast))"
  by (simp add: two_logged_def audit_run_def audit_init_def append_or_clear_def appended_def
      log_def undo_last_def Let_def)

text \<open>
  C6, amended: along every sequence of operations on a logger, one operation leaves the
  entries as they are, appends one entry, clears them all, or (\<open>undo_last\<close>) removes the
  most recent one; the entries that remain keep their positions and contents.
\<close>

theorem C6_audit_trail_steps:
  "append_clear_or_undo (entries (audit_run s ops)) (entries (audit_step (audit_run s ops) op))
   \<and> kept_unchanged (entries (audit_run s ops)) (entries (audit_step (audit_run s ops) op))"
  using audit_step_shape [of "audit_run s ops" op] audit_step_kept [of "audit_run s ops" op]
  by simp

theorem C6_audit_trail_steps_witness:
  "append_clear_or_undo (entries two_logged) (entries (audit_step two_logged OpUndoLast))
   \<and> kept_unchanged (entries two_logged) (entries (audit_step two_logged OpUndoLast))
   \<and> map entry_number (entries (audit_step two_logged OpUndoLast)) = [1]"
  using C6_audit_trail_steps [of "audit_init None ''t0''"
      "[OpLog ''t1'' ''impute'' [] ''system'', OpLog ''t2'' ''recode'' [] ''system'']" OpUndoLast]
  by (simp add: two_logged_def audit_run_def audit_init_def log_def undo_last_def Let_def)

section \<open>The version store\<close>

lemma stored_data_mem:
  "map_of (versions m) n = Some info \<Longrightarrow> data info \<in> set (stored_objects m)"
  unfolding stored_objects_def by (force dest: map_of_SomeD)

lemma snapshot_mutate_other:
  assumes "a \<notin> set (stored_objects m)"
  shows "snapshot (frame_mutate h a f) m n = snapshot h m n"
proof (cases "map_of (versions m) n")
  case None
  then show ?thesis by (simp add: snapshot_def)
next
  case (Some info)
  then have "data info \<noteq> a" using assms stored_data_mem by blast
  then show ?thesis using Some by (simp add: snapshot_def frame_mutate_def)
qed

lemma map_of_dict_set: "map_of (dict_set d k v) = (map_of d)(k \<mapsto> v)"
  by (induction d k v rule: dict_set.induct) auto

lemma set_dict_set: "snd ` set (dict_set d k v) \<subseteq> insert v (snd ` set d)"
  by (induction d k v rule: dict_set.induct) auto

lemma stored_objects_image: "set (stored_objects m) = data ` snd ` set (versions m)"
  by (force simp: stored_objects_def image_iff)

lemma stored_objects_dict_set:
  assumes "versions m' = dict_set (versions m) k v"
  shows "set (stored_objects m') \<subseteq> insert (data v) (set (stored_objects m))"
proof -
  have "data ` snd ` set (dict_set (versions m) k v) \<subseteq> data ` insert v (snd ` set (versions m))"
    using set_dict_set [of "versions m" k v] by (rule image_mono)
  then show ?thesis by (simp add: stored_objects_image assms)
qed

lemma save_version_ok:
  assumes ok: "manager_ok h m" and cf: "callers_frame h m a"
    and sv: "save_version h m a n d now = (h', m', r)"
  shows "manager_ok h' m'" and "callers_frame h' m' a" and "snapshot h' m' n = Some (h ! a)"
    and "k \<noteq> n \<Longrightarrow> snapshot h' m' k = snapshot h m k"
proof -
  let ?info = "\<lparr>data = length h, saved_timestamp = now, description = d,
                  saved_shape = shape (h ! a), saved_columns = map fst (cols (h ! a))\<rparr>"
  from sv have h': "h' = h @ [h ! a]"
    and m': "m' = m\<lparr>versions := dict_set (versions m) n ?info, current_version := Some n\<rparr>"
    by (simp_all add: save_version_def frame_copy_def Let_def)
  have sub: "set (stored_objects m') \<subseteq> insert (length h) (set (stored_objects m))"
    using stored_objects_dict_set [of m' m n ?info] by (simp add: m')
  have old: "\<And>x. x \<in> set (stored_objects m) \<Longrightarrow> x < length h"
    using ok by (simp add: manager_ok_def list_all_iff)
  show "manager_ok h' m'"
    unfolding manager_ok_def list_all_iff using sub old h' by fastforce
  show "callers_frame h' m' a"
    using cf sub h' unfolding callers_frame_def by auto
  show "snapshot h' m' n = Some (h ! a)"
    by (simp add: snapshot_def m' h' map_of_dict_set)
  show "snapshot h' m' k = snapshot h m k" if "k \<noteq> n"
  proof (cases "map_of (versions m) k")
    case None
    then show ?thesis using that by (simp add: snapshot_def m' map_of_dict_set)
  next
    case (Some info)
    then have "data info < length h" using old stored_data_mem by blast
    then show ?thesis using that Some by (simp add: snapshot_def m' h' map_of_dict_set nth_append)
  qed
qed

lemma get_version_found:
  assumes ok: "manager_ok h m" and gv: "get_version h m n = (h', Some b)"
  shows "b \<notin> set (stored_objects m)" and "b < length h'" and "Some (h' ! b) = snapshot h m n"
    and "snapshot h' m k = snapshot h m k" and "manager_ok h' m"
proof -
  from gv obtain info where info: "map_of (versions m) n = Some info"
    by (auto simp: get_version_def split: option.splits)
  with gv have h': "h' = h @ [h ! data info]" and b: "b = length h"
    by (simp_all add: get_version_def frame_copy_def)
  have old: "\<And>x. x \<in> set (stored_objects m) \<Longrightarrow> x < length h"
    using ok by (simp add: manager_ok_def list_all_iff)
  show "b \<notin> set (stored_objects m)" using old b by blast
  show "b < length h'" by (simp add: h' b)
  show "Some (h' ! b) = snapshot h m n" by (simp add: h' b snapshot_def info)
  show "manager_ok h' m" using old by (fastforce simp: manager_ok_def list_all_iff h')
  show "snapshot h' m k = snapshot h m k"
  proof (cases "map_of (versions m) k")
    case None
    then show ?thesis by (simp add: snapshot_def)
  next
    case (Some i)
    then have "data i < length h" using old stored_data_mem by blast
    then show ?thesis using Some by (simp add: snapshot_def h' nth_append)
  qed
qed

lemma get_version_unknown:
  "version_name \<notin> fst ` set (versions m) \<Longrightarrow> get_version h m version_name = (h, None)"
proof -
  assume "version_name \<notin> fst ` set (versions m)"
  then have "map_of (versions m) version_name = None" by (simp add: map_of_eq_None_iff)
  then show ?thesis by (simp add: get_version_def)
qed

text \<open>
  C10: the version store is isolated from its callers. In a manager whose saved versions
  point to live objects, \<open>save_version\<close> of a caller's frame stores its contents under
  the name, and no later change in place of the caller's frame alters any saved version;
  a frame that \<open>get_version\<close> returns has the contents of the saved version, and no
  change in place of it alters any saved version; \<open>get_version\<close> of an unknown name
  returns \<open>None\<close> and leaves everything as it is.
\<close>

theorem C10_version_store_isolated:
  assumes "manager_ok h m"
  shows "(callers_frame h m a \<and> save_version h m a n d now = (h1, m1, r) \<longrightarrow>
            manager_ok h1 m1 \<and> snapshot h1 m1 n = Some (h ! a) \<and>
            (\<forall>f k. snapshot (frame_mutate h1 a f) m1 k = snapshot h1 m1 k))
       \<and> (get_version h m k = (h2, Some b) \<longrightarrow>
            manager_ok h2 m \<and> Some (h2 ! b) = snapshot h m k \<and>
            (\<forall>g k'. snapshot (frame_mutate h2 b g) m k' = snapshot h m k'))
       \<and> (k \<notin> fst ` set (versions m) \<longrightarrow> get_version h m k = (h, None))"
proof (intro conjI impI allI)
  assume sv: "callers_frame h m a \<and> save_version h m a n d now = (h1, m1, r)"
  then show "manager_ok h1 m1" and "snapshot h1 m1 n = Some (h ! a)"
    using save_version_ok(1,3) [OF assms] by blast+
  have "callers_frame h1 m1 a" using sv save_version_ok(2) [OF assms] by blast
  then have "a \<notin> set (stored_objects m1)" by (simp add: callers_frame_def)
  then show "snapshot (frame_mutate h1 a f) m1 k = snapshot h1 m1 k" for f k
    by (rule snapshot_mutate_other)
next
  assume gv: "get_version h m k = (h2, Some b)"
  show "manager_ok h2 m" and "Some (h2 ! b) = snapshot h m k"
    using get_version_found(5,3) [OF assms gv] by blast+
  have "b \<notin> set (stored_objects m)" by (rule get_version_found(1) [OF assms gv])
  then have "snapshot (frame_mutate h2 b g) m k' = snapshot h2 m k'" for g k'
    by (rule snapshot_mutate_other)
  then show "snapshot (frame_mutate h2 b g) m k' = snapshot h m k'" for g k'
    using get_version_found(4) [OF assms gv] by simp
next
  assume "k \<notin> fst ` set (versions m)"
  then show "get_version h m k = (h, None)" by (rule get_version_unknown)
qed

theorem C10_version_store_isolated_witness:
  "manager_ok [frame_one] version_manager_init
   \<and> callers_frame [frame_one] version_manager_init 0
   \<and> snapshot (frame_mutate (fst saved_once) 0 wipe) (fst (snd saved_once)) ''raw'' = Some frame_one
   \<and> get_version (fst saved_once) (fst (snd saved_once)) ''raw'' = (fst saved_once @ [frame_one], Some 2)
   \<and> snapshot (frame_mutate (fst saved_once @ [frame_one]) 2 wipe) (fst (snd saved_once)) ''raw''
       = Some frame_one
   \<and> get_version (fst saved_once) (fst (snd saved_once)) ''clean'' = (fst saved_once, None)"
proof -
  have ok: "manager_ok [frame_one] version_manager_init"
    by (simp add: manager_ok_def stored_objects_def version_manager_init_def)
  have sv: "saved_once =
      ([frame_one, frame_one],
       \<lparr>versions = [(''raw'', \<lparr>data = 1, saved_timestamp = ''t1'', description = None,
                      saved_shape = (2, 1), saved_columns = [''score'']\<rparr>)],
        current_version = Some ''raw''\<rparr>,
       \<lparr>receipt_version = ''raw'', receipt_rows = 2, receipt_columns = 1,
        receipt_saved_at = ''t1''\<rparr>)"
    by (simp add: saved_once_def save_version_def frame_copy_def version_manager_init_def
        shape_def frame_one_def Let_def)
  have cf: "callers_frame [frame_one] version_manager_init 0"
    by (simp add: callers_frame_def stored_objects_def version_manager_init_def)
  have run: "save_version [frame_one] version_manager_init 0 ''raw'' None ''t1''
      = (fst saved_once, fst (snd saved_once), snd (snd saved_once))"
    by (simp add: saved_once_def)
  have iso: "snapshot (frame_mutate (fst saved_once) 0 wipe) (fst (snd saved_once)) ''raw''
      = snapshot (fst saved_once) (fst (snd saved_once)) ''raw''"
    using C10_version_store_isolated [OF ok, of 0 "''raw''" None "''t1''" "fst saved_once"
        "fst (snd saved_once)" "snd (snd saved_once)"] cf run
    by blast
  have snap: "snapshot (fst saved_once) (fst (snd saved_once)) ''raw'' = Some frame_one"
    by (simp add: sv snapshot_def)
  have gv: "get_version (fst saved_once) (fst (snd saved_once)) ''raw''
      = (fst saved_once @ [frame_one], Some 2)"
    by (simp add: sv get_version_def frame_copy_def)
  have iso2: "snapshot (frame_mutate (fst saved_once @ [frame_one]) 2 wipe) (fst (snd saved_once)) ''raw''
      = Some frame_one"
    by (simp add: sv snapshot_def frame_mutate_def)
  have unk: "get_version (fst saved_once) (fst (snd saved_once)) ''clean'' = (fst saved_once, None)"
    by (simp add: sv get_version_def)
  show ?thesis
    using ok cf iso snap gv iso2 unk by simp
qed

section \<open>The narrative requestor\<close>

lemma call_deepseek_no_key: "deepseek_api_key self = [] \<Longrightarrow> call_deepseek post self ms n = VNone"
  by (simp add: call_deepseek_def)

lemma call_gemini_no_key: "gemini_api_key self = [] \<Longrightarrow> call_gemini post self p n = VNone"
  by (simp add: call_gemini_def)

text \<open>
  C7: with both provider keys empty, \<open>interpret\<close> returns, for every prompt and whatever
  the network would do, the record with \<open>success = False\<close> and as interpretation the
  template of \<open>_generate_fallback_interpretation\<close>, written out here character by
  character: the same eight lines for every prompt. The operation is a total function
  into records: no exception reaches the caller.
\<close>

theorem C7_interpret_without_keys:
  assumes "deepseek_api_key self = []" and "gemini_api_key self = []"
  shows "interpret_prompt system_prompt post self prompt use_system_prompt =
           [(''success'', VBool False),
            (''interpretation'',
               VStr ([CHR 0x0A]
                 @ ''**Interpretation (AI temporarily unavailable):**'' @ [CHR 0x0A]
                 @ [CHR 0x0A]
                 @ ''The statistical results have been calculated accurately by Python. Please review:''
                 @ [CHR 0x0A]
                 @ ''- The p-value to determine statistical significance (p < 0.05 is significant)''
                 @ [CHR 0x0A]
                 @ ''- The effect size to understand practical significance'' @ [CHR 0x0A]
                 @ ''- The confidence intervals for precision of estimates'' @ [CHR 0x0A]
                 @ [CHR 0x0A]
                 @ ''For a complete narrative interpretation, please retry when AI services are available.''
                 @ [CHR 0x0A])),
            (''model'', VStr ''fallback-template''),
            (''error'', VStr ''Both AI services unavailable. Using template response.'')]"
  using assms
  by (simp add: interpret_prompt_def call_deepseek_no_key call_gemini_no_key Let_def
      generate_fallback_interpretation_def fallback_lines_def)

theorem C7_interpret_without_keys_witness:
  "deepseek_api_key (ai_interpreter_init [] []) = []
   \<and> gemini_api_key (ai_interpreter_init [] []) = []
   \<and> dict_get (interpret_prompt ''You are interpreting.'' post_up (ai_interpreter_init [] []) ''t = 2.1'' True)
        ''success'' = Some (VBool False)
   \<and> (case dict_get (interpret_prompt ''You are interpreting.'' post_up (ai_interpreter_init [] [])
                ''t = 2.1'' True) ''interpretation'' of
         Some (VStr s) \<Rightarrow> take 49 s = [CHR 0x0A] @ ''**Interpretation (AI temporarily unavailable):**''
                            \<and> length s = 407
       | _ \<Rightarrow> False)
   \<and> dict_get (interpret_prompt ''You are interpreting.'' post_up (ai_interpreter_init [] []) ''t = 2.1'' False)
        = dict_get (interpret_prompt ''Another prompt.'' post_up (ai_interpreter_init [] []) ''F = 3'' True)
   \<and> dict_get (interpret_prompt ''You are interpreting.'' post_up (ai_interpreter_init ''k1'' []) ''t = 2.1'' True)
        ''success'' = Some (VBool True)"
proof -
  have k: "deepseek_api_key (ai_interpreter_init [] []) = []"
    "gemini_api_key (ai_interpreter_init [] []) = []"
    by (simp_all add: ai_interpreter_init_def)
  have up: "dict_get (interpret_prompt ''You are interpreting.'' post_up (ai_interpreter_init ''k1'' []) ''t = 2.1'' True)
        ''success'' = Some (VBool True)"
    by (simp add: interpret_prompt_def call_deepseek_def post_up_def ai_interpreter_init_def
        deepseek_content_def bind_exc_def getitem_key_def getitem_first_def dict_get_def Let_def)
  show ?thesis
    using C7_interpret_without_keys [OF k, of "''You are interpreting.''" post_up "''t = 2.1''" True]
      C7_interpret_without_keys [OF k, of "''You are interpreting.''" post_up "''t = 2.1''" False]
      C7_interpret_without_keys [OF k, of "''Another prompt.''" post_up "''F = 3''" True]
      k up
    by (simp add: dict_get_def)
qed

section \<open>The error monad\<close>

lemma bind_exc_Inl [simp]: "bind_exc (Inl e) f = Inl e"
  by (simp add: bind_exc_def)

lemma bind_exc_Inr [simp]: "bind_exc (Inr v) f = f v"
  by (simp add: bind_exc_def)


section \<open>Cohen's d\<close>










section \<open>The two-sample test\<close>




lemma try_except_Inr: "try_except (Inr r) = r"
  by (simp add: try_except_def)


lemma keys_ttest_record:
  "keys (ttest_record lib alpha gv ov groups g1 g2 t p tt lev d d_ci md dci n1 n2) =
     [''test_type'', ''test_statistic'', ''degrees_of_freedom'', ''p_value'', ''significant'',
      ''alpha'', ''effect_size'', ''mean_difference'', ''group_statistics'', ''assumptions'',
      ''variables'']"
  by (simp add: keys_def ttest_record_def)

lemma ttest_tail_cases:
  assumes "ttest_tail lib alpha gv ov groups g1 g2 t p tt lev = Inr r"
  obtains d d_ci md dci n1 n2
  where "r = ttest_record lib alpha gv ov groups g1 g2 t p tt lev d d_ci md dci n1 n2"
proof -
  obtain d_ci where "cohens_d_ci lib (cohens_d g1 g2) (int (length g1)) (int (length g2)) = Inr d_ci"
    using assms
    by (cases "cohens_d_ci lib (cohens_d g1 g2) (int (length g1)) (int (length g2))")
      (simp_all add: ttest_tail_def Let_def)
  moreover obtain n1 where "shapiro_if lib (3 \<le> length g1) g1 = Inr n1"
    using assms calculation
    by (cases "shapiro_if lib (3 \<le> length g1) g1") (simp_all add: ttest_tail_def Let_def)
  moreover obtain n2 where "shapiro_if lib (3 \<le> length g2) g2 = Inr n2"
    using assms calculation
    by (cases "shapiro_if lib (3 \<le> length g2) g2") (simp_all add: ttest_tail_def Let_def)
  ultimately have "\<exists>md dci. r = ttest_record lib alpha gv ov groups g1 g2 t p tt lev (cohens_d g1 g2)
      d_ci md dci n1 n2"
    using assms by (auto simp: ttest_tail_def Let_def)
  then show ?thesis using that by blast
qed

lemma ttest_tail_keys:
  assumes "ttest_tail lib alpha gv ov groups g1 g2 t p tt lev = Inr r"
  shows "keys r =
     [''test_type'', ''test_statistic'', ''degrees_of_freedom'', ''p_value'', ''significant'',
      ''alpha'', ''effect_size'', ''mean_difference'', ''group_statistics'', ''assumptions'',
      ''variables'']"
proof -
  from assms obtain d d_ci md dci n1 n2 where
    "r = ttest_record lib alpha gv ov groups g1 g2 t p tt lev d d_ci md dci n1 n2"
    by (rule ttest_tail_cases)
  then show ?thesis by (simp add: keys_ttest_record)
qed






lemma sample_lib_sel:
  "norm_ppf (sample_lib lp) = (\<lambda>q. Fl (196 / 100))"
  "t_ppf (sample_lib lp) = (\<lambda>q dof. Fl 2)"
  "levene (sample_lib lp) = (\<lambda>groups. Inr (Fl (12345 / 10000), lp))"
  "ttest_ind (sample_lib lp) = (\<lambda>a b equal_var. Inr (if equal_var then Fl (- 5) else Fl (- 4), Fl (1 / 1000)))"
  "ttest_rel (sample_lib lp) = (\<lambda>a b. Inr (Fl (- 3), Fl (1 / 100)))"
  "shapiro (sample_lib lp) = (\<lambda>xs. if length xs < 3 then Inl (Raised ''Data must be at least length 3.'')
                      else Inr (Fl (95 / 100), Fl (1 / 2)))"
  "chi2_contingency (sample_lib lp) = doc_chi2_contingency (\<lambda>x dof. 57 / 1000000)"
  "fisher_exact (sample_lib lp) = (\<lambda>t. Inr (PosInf, Fl (1 / 100000)))"
  "sort_labels (sample_lib lp) = sort_label_list"
  by (simp_all add: sample_lib_def)

lemma two_groups_rows:
  "select2_dropna two_groups_frame ''group'' ''score'' =
     Inr [(Txt ''a'', Num 1), (Txt ''a'', Num 2), (Txt ''a'', Num 3), (Txt ''a'', Num 4),
          (Txt ''a'', Num 5), (Txt ''b'', Num 6), (Txt ''b'', Num 7), (Txt ''b'', Num 8),
          (Txt ''b'', Num 9), (Txt ''b'', Num 10)]"
  by (simp add: select2_dropna_def column_def two_groups_frame_def)

lemma two_groups_tail:
  "\<exists>r. ttest_tail (sample_lib lp) alpha gv ov groups [1, 2, 3, 4, 5] [6, 7, 8, 9, 10] t p tt lev = Inr r"
  by (simp add: ttest_tail_def Let_def cohens_d_ci_def int_truediv_def shapiro_if_def sample_lib_sel)

lemma two_groups_no_error:
  "''error'' \<notin> set (keys (run_ttest (sample_lib lp) alpha two_groups_frame ''group'' ''score'' paired))"
proof -
  have "\<exists>t p tt lev. run_ttest_body (sample_lib lp) alpha two_groups_frame ''group'' ''score'' paired
      = ttest_tail (sample_lib lp) alpha ''group'' ''score'' [Txt ''a'', Txt ''b'']
          [1, 2, 3, 4, 5] [6, 7, 8, 9, 10] t p tt lev"
    by (cases paired;
        simp add: run_ttest_body_def two_groups_rows group_rows_def as_numeric_def
          sample_lib_sel Let_def; blast)
  then obtain t p tt lev r where
    "run_ttest_body (sample_lib lp) alpha two_groups_frame ''group'' ''score'' paired = Inr r"
    and "ttest_tail (sample_lib lp) alpha ''group'' ''score'' [Txt ''a'', Txt ''b'']
          [1, 2, 3, 4, 5] [6, 7, 8, 9, 10] t p tt lev = Inr r"
    using two_groups_tail by metis
  then show ?thesis
    using ttest_tail_keys by (simp add: run_ttest_def try_except_Inr)
qed






section \<open>The association test on a diagonal table\<close>












section \<open>The normality check\<close>




section \<open>Errors of the test methods\<close>

lemma body_ok_bind: "(\<And>v. r = Inr v \<Longrightarrow> body_ok (f v)) \<Longrightarrow> body_ok (bind_exc r f)"
  by (cases r) (simp_all add: body_ok_def)

lemma body_ok_if: "body_ok a \<Longrightarrow> body_ok b \<Longrightarrow> body_ok (if c then a else b)"
  by simp

lemma body_ok_case_prod: "(\<And>a b. body_ok (f a b)) \<Longrightarrow> body_ok (case_prod f p)"
  by (cases p) simp

lemma body_ok_Let: "(\<And>x. body_ok (f x)) \<Longrightarrow> body_ok (Let v f)"
  by (simp add: Let_def)

lemma body_ok_error: "body_ok (Inr (error_record m))"
  by (simp add: body_ok_def well_formed_result_def is_error_record_def error_record_def)

lemma body_ok_keys: "''error'' \<notin> set (keys r) \<Longrightarrow> body_ok (Inr r)"
  by (simp add: body_ok_def well_formed_result_def)

lemma try_except_ok: "body_ok b \<Longrightarrow> well_formed_result (try_except b)"
  by (cases b)
    (simp_all add: body_ok_def try_except_def well_formed_result_def is_error_record_def
      error_record_def)

lemmas body_ok_intros =
  body_ok_bind body_ok_if body_ok_case_prod body_ok_Let body_ok_error body_ok_keys

lemma keys_chisquare_record:
  "keys (chisquare_record lib alpha var1 var2 ct tt chi2 dof p od ex me uf) =
     [''test_type'', ''test_statistic'', ''degrees_of_freedom'', ''p_value'', ''significant'',
      ''alpha'', ''effect_size'', ''contingency_table'', ''sample_size'', ''assumptions'',
      ''variables'']"
  by (simp add: keys_def chisquare_record_def Let_def)

lemma keys_anova_record:
  "keys (anova_record lib alpha gv ov groups gd n f p ssb sst tk ls lp) =
     [''test_type'', ''test_statistic'', ''degrees_of_freedom'', ''p_value'', ''significant'',
      ''alpha'', ''effect_size'', ''group_statistics'', ''posthoc'', ''assumptions'', ''variables'']"
  by (simp add: keys_def anova_record_def Let_def)

lemma keys_correlation_record:
  "keys (correlation_record lib alpha var1 var2 tt n r p) =
     [''test_type'', ''correlation_coefficient'', ''p_value'', ''significant'', ''alpha'',
      ''r_squared'', ''confidence_interval'', ''interpretation'', ''sample_size'', ''variables'']"
  by (simp add: keys_def correlation_record_def Let_def)

lemma keys_mannwhitney_record:
  "keys (mannwhitney_record lib alpha gv ov groups g1 g2 u p) =
     [''test_type'', ''test_statistic'', ''p_value'', ''significant'', ''alpha'', ''effect_size'',
      ''group_statistics'', ''variables'']"
  by (simp add: keys_def mannwhitney_record_def Let_def)

lemma keys_kruskal_record:
  "keys (kruskal_record lib alpha gv ov groups gd n h p) =
     [''test_type'', ''test_statistic'', ''degrees_of_freedom'', ''p_value'', ''significant'',
      ''alpha'', ''effect_size'', ''group_statistics'', ''variables'']"
  by (simp add: keys_def kruskal_record_def Let_def)

lemma keys_linear_regression_record:
  "keys (linear_regression_record alpha outcome predictors model cs n vif sh bs bp dw) =
     [''test_type'', ''model_summary'', ''coefficients'', ''sample_size'', ''effect_size'',
      ''multicollinearity'', ''assumptions'', ''variables'']"
  by (simp add: keys_def linear_regression_record_def)

lemma keys_logistic_regression_record:
  "keys (logistic_regression_record alpha outcome predictors model cs n acc cm) =
     [''test_type'', ''model_summary'', ''coefficients'', ''sample_size'', ''classification'',
      ''effect_size'', ''variables'']"
  by (simp add: keys_def logistic_regression_record_def Let_def)

lemmas keys_records =
  keys_ttest_record keys_chisquare_record keys_anova_record keys_correlation_record
  keys_mannwhitney_record keys_kruskal_record keys_linear_regression_record
  keys_logistic_regression_record

lemma ttest_tail_ok: "body_ok (ttest_tail lib alpha gv ov groups g1 g2 t p tt lev)"
  unfolding ttest_tail_def
  by (intro body_ok_intros) (simp add: keys_records)

lemma run_ttest_body_ok: "body_ok (run_ttest_body lib alpha df gv ov paired)"
  unfolding run_ttest_body_def
  by (intro body_ok_intros ttest_tail_ok)

lemma run_anova_body_ok: "body_ok (run_anova_body lib alpha df gv ov)"
  unfolding run_anova_body_def
  by (intro body_ok_intros) (simp add: keys_records)

lemma run_chisquare_body_ok: "body_ok (run_chisquare_body lib alpha df v1 v2)"
  unfolding run_chisquare_body_def
  by (intro body_ok_intros) (simp add: keys_records)

lemma run_correlation_body_ok: "body_ok (run_correlation_body lib alpha df v1 v2 method)"
  unfolding run_correlation_body_def
  by (intro body_ok_intros) (simp add: keys_records)

lemma run_linear_regression_body_ok: "body_ok (run_linear_regression_body lib alpha df outcome ps)"
  unfolding run_linear_regression_body_def
  by (intro body_ok_intros) (simp add: keys_records)

lemma run_logistic_regression_body_ok: "body_ok (run_logistic_regression_body lib alpha df outcome ps)"
  unfolding run_logistic_regression_body_def
  by (intro body_ok_intros) (simp add: keys_records)

lemma run_mannwhitney_body_ok: "body_ok (run_mannwhitney_body lib alpha df gv ov)"
  unfolding run_mannwhitney_body_def
  by (intro body_ok_intros) (simp add: keys_records)

lemma run_kruskal_body_ok: "body_ok (run_kruskal_body lib alpha df gv ov)"
  unfolding run_kruskal_body_def
  by (intro body_ok_intros) (simp add: keys_records)

text \<open>
  C1: each of the eight test methods is one \<open>try\<close> block. Whenever its body raises an
  exception, the method returns the record that holds only \<open>error\<close> with the message of
  the exception; it is a total function into records, so nothing propagates. Every
  record it returns is either such an error-only record or has no key \<open>error\<close>.
\<close>

theorem C1_failures_become_error_records:
  "(run_ttest_body lib alpha df group_var outcome_var paired = Inl e
      \<longrightarrow> run_ttest lib alpha df group_var outcome_var paired = [(''error'', VStr (exc_str e))])
   \<and> well_formed_result (run_ttest lib alpha df group_var outcome_var paired)
   \<and> (run_anova_body lib alpha df group_var outcome_var = Inl e
      \<longrightarrow> run_anova lib alpha df group_var outcome_var = [(''error'', VStr (exc_str e))])
   \<and> well_formed_result (run_anova lib alpha df group_var outcome_var)
   \<and> (run_chisquare_body lib alpha df var1 var2 = Inl e
      \<longrightarrow> run_chisquare lib alpha df var1 var2 = [(''error'', VStr (exc_str e))])
   \<and> well_formed_result (run_chisquare lib alpha df var1 var2)
   \<and> (run_correlation_body lib alpha df var1 var2 method = Inl e
      \<longrightarrow> run_correlation lib alpha df var1 var2 method = [(''error'', VStr (exc_str e))])
   \<and> well_formed_result (run_correlation lib alpha df var1 var2 method)
   \<and> (run_linear_regression_body lib alpha df outcome predictors = Inl e
      \<longrightarrow> run_linear_regression lib alpha df outcome predictors = [(''error'', VStr (exc_str e))])
   \<and> well_formed_result (run_linear_regression lib alpha df outcome predictors)
   \<and> (run_logistic_regression_body lib alpha df outcome predictors = Inl e
      \<longrightarrow> run_logistic_regression lib alpha df outcome predictors = [(''error'', VStr (exc_str e))])
   \<and> well_formed_result (run_logistic_regression lib alpha df outcome predictors)
   \<and> (run_mannwhitney_body lib alpha df group_var outcome_var = Inl e
      \<longrightarrow> run_mannwhitney lib alpha df group_var outcome_var = [(''error'', VStr (exc_str e))])
   \<and> well_formed_result (run_mannwhitney lib alpha df group_var outcome_var)
   \<and> (run_kruskal_body lib alpha df group_var outcome_var = Inl e
      \<longrightarrow> run_kruskal lib alpha df group_var outcome_var = [(''error'', VStr (exc_str e))])
   \<and> well_formed_result (run_kruskal lib alpha df group_var outcome_var)"
proof -
  have caught: "\<And>b. b = Inl e \<longrightarrow> try_except b = [(''error'', VStr (exc_str e))]"
    by (simp add: try_except_def error_record_def)
  show ?thesis
    unfolding run_ttest_def run_anova_def run_chisquare_def run_correlation_def
      run_linear_regression_def run_logistic_regression_def run_mannwhitney_def run_kruskal_def
    by (intro conjI caught try_except_ok run_ttest_body_ok run_anova_body_ok
        run_chisquare_body_ok run_correlation_body_ok run_linear_regression_body_ok
        run_logistic_regression_body_ok run_mannwhitney_body_ok run_kruskal_body_ok)
qed

lemma failing_levene:
  "run_ttest_body failing_lib alpha two_groups_frame ''group'' ''score'' False
     = Inl (Raised ''Levene: input failed'')"
  by (simp add: run_ttest_body_def two_groups_rows group_rows_def as_numeric_def failing_lib_def
      Let_def)

lemma failing_fit:
  "run_linear_regression_body failing_lib alpha two_groups_frame ''score'' (OneName ''group'')
     = Inl (Raised ''Singular matrix'')"
  by (simp add: run_linear_regression_body_def predictor_list_def select_dropna_def column_def
      two_groups_frame_def complete_rows_def keep_rows_def frame_columns_def frame_column_def
      failing_lib_def Let_def eval_nat_numeral)

theorem C1_failures_become_error_records_witness:
  "run_ttest failing_lib (5 / 100) two_groups_frame ''group'' ''score'' False
      = [(''error'', VStr ''Levene: input failed'')]
   \<and> run_linear_regression failing_lib (5 / 100) two_groups_frame ''score'' (OneName ''group'')
      = [(''error'', VStr ''Singular matrix'')]
   \<and> well_formed_result (run_ttest failing_lib (5 / 100) two_groups_frame ''group'' ''score'' False)
   \<and> ''error'' \<notin> set (keys (run_ttest (sample_lib (Fl (1 / 2))) (5 / 100) two_groups_frame
                                ''group'' ''score'' False))"
proof -
  note levene_case = C1_failures_become_error_records
    [of failing_lib "5 / 100" two_groups_frame "''group''" "''score''" False
       "Raised ''Levene: input failed''" "''group''" "''score''" "''pearson''" "''score''" "OneName ''group''"]
  note fit_case = C1_failures_become_error_records
    [of failing_lib "5 / 100" two_groups_frame "''group''" "''score''" False
       "Raised ''Singular matrix''" "''group''" "''score''" "''pearson''" "''score''" "OneName ''group''"]
  have "run_ttest_body failing_lib (5 / 100) two_groups_frame ''group'' ''score'' False
          = Inl (Raised ''Levene: input failed'')
        \<longrightarrow> run_ttest failing_lib (5 / 100) two_groups_frame ''group'' ''score'' False
          = [(''error'', VStr (exc_str (Raised ''Levene: input failed'')))]"
    using levene_case by (elim conjE)
  then have a: "run_ttest failing_lib (5 / 100) two_groups_frame ''group'' ''score'' False
      = [(''error'', VStr ''Levene: input failed'')]"
    using failing_levene [of "5 / 100"] by simp
  have "run_linear_regression_body failing_lib (5 / 100) two_groups_frame ''score'' (OneName ''group'')
          = Inl (Raised ''Singular matrix'')
        \<longrightarrow> run_linear_regression failing_lib (5 / 100) two_groups_frame ''score'' (OneName ''group'')
          = [(''error'', VStr (exc_str (Raised ''Singular matrix'')))]"
    using fit_case by (elim conjE)
  then have b: "run_linear_regression failing_lib (5 / 100) two_groups_frame ''score'' (OneName ''group'')
      = [(''error'', VStr ''Singular matrix'')]"
    using failing_fit [of "5 / 100"] by simp
  have c: "well_formed_result (run_ttest failing_lib (5 / 100) two_groups_frame ''group'' ''score'' False)"
    using levene_case by (elim conjE)
  have d: "''error'' \<notin> set (keys (run_ttest (sample_lib (Fl (1 / 2))) (5 / 100) two_groups_frame
                                ''group'' ''score'' False))"
    by (rule two_groups_no_error)
  show ?thesis using a b c d by (intro conjI)
qed

section \<open>Rounding in the result records\<close>

lemma round_half_even_of_int: "round_half_even (of_int k) = k"
  by (simp add: round_half_even_def Let_def)

lemma py_round_idem: "py_round (py_round a n) n = py_round a n"
  by (cases a) (simp_all add: round_half_even_of_int)


lemma rounded_or_none: "rounded 4 (rounded_or_none a)"
  by (simp add: rounded_or_none_def py_round_idem split: option.splits)












































































end
